theory Spec2Isabelle
  imports Main "HOL-Library.Sublist"
begin

section \<open>Strings\<close>

text \<open>
  JavaScript strings are modelled as \<^typ>\<open>string\<close>. The double quote that the
  locator templates embed is the character \<open>dq\<close>; \<open>quoted s\<close> is \<open>s\<close> between two of them.
\<close>

abbreviation dq :: char where
  "dq \<equiv> CHR 0x22"

definition quoted :: "string \<Rightarrow> string" where
  "quoted s = dq # s @ [dq]"

text \<open>
  The white space of \<open>String.prototype.trim\<close> and of the class \<open>\\s\<close>, within the
  characters a \<^typ>\<open>char\<close> can hold: tab, line feed, vertical tab, form feed, carriage
  return, space and no-break space.
\<close>

definition isWhiteSpace :: "char \<Rightarrow> bool" where
  "isWhiteSpace c = ((of_char c :: nat) \<in> {9, 10, 11, 12, 13, 32, 160})"

definition trim :: "string \<Rightarrow> string" where
  "trim s = rev (dropWhile isWhiteSpace (rev (dropWhile isWhiteSpace s)))"

text \<open>\<open>s.replace(/\\s+/g, ' ')\<close>: every maximal run of white space becomes one space.\<close>

function collapseWhiteSpace :: "string \<Rightarrow> string" where
  "collapseWhiteSpace [] = []"
| "collapseWhiteSpace (c # cs) =
     (if isWhiteSpace c then CHR '' '' # collapseWhiteSpace (dropWhile isWhiteSpace cs)
      else c # collapseWhiteSpace cs)"
  by pat_completeness auto
termination
  by (relation "measure length") (auto simp: length_dropWhile_le less_Suc_eq_le)

definition str_includes :: "string \<Rightarrow> char \<Rightarrow> bool" where
  "str_includes s c = (c \<in> set s)"

text \<open>
  \<open>String.prototype.toLowerCase\<close> on the characters a \<^typ>\<open>char\<close> can hold, read as
  the code points 0 to 255: the capitals are \<open>A\<close> to \<open>Z\<close> and the accented capitals
  192 to 222 without the multiplication sign 215, and each is 32 below its small letter.
\<close>

definition isCapital :: "char \<Rightarrow> bool" where
  "isCapital c =
     ((65 \<le> (of_char c :: nat) \<and> (of_char c :: nat) \<le> 90) \<or>
      (192 \<le> (of_char c :: nat) \<and> (of_char c :: nat) \<le> 222 \<and> (of_char c :: nat) \<noteq> 215))"

definition toLowerCase :: "string \<Rightarrow> string" where
  "toLowerCase s =
     map (\<lambda>c. if isCapital c then char_of ((of_char c :: nat) + 32) else c) s"

fun join :: "string \<Rightarrow> string list \<Rightarrow> string" where
  "join sep [] = []"
| "join sep [x] = x"
| "join sep (x # y # ys) = x @ sep @ join sep (y # ys)"

text \<open>The decimal digits of a number, as template interpolation prints it.\<close>

fun showNat :: "nat \<Rightarrow> string" where
  "showNat n =
     (if n < 10 then [char_of (48 + n)]
      else showNat (n div 10) @ [char_of (48 + n mod 10)])"

text \<open>
  JavaScript truthiness of a value that is a string or \<open>null\<close>: \<open>null\<close> and the empty
  string are falsy. \<open>a || b\<close> is \<open>a\<close> when \<open>a\<close> is truthy and \<open>b\<close> otherwise.
\<close>

definition truthy :: "string option \<Rightarrow> bool" where
  "truthy v = (case v of None \<Rightarrow> False | Some s \<Rightarrow> s \<noteq> [])"

definition or_else :: "string option \<Rightarrow> string option \<Rightarrow> string option" where
  "or_else a b = (if truthy a then a else b)"

section \<open>Regular expressions of the source\<close>

subsection \<open>Sequences of repeated character classes\<close>

text \<open>
  Every pattern of \<open>hasDynamicParts\<close> is a sequence of character classes, each repeated
  exactly \<open>n\<close> times (\<open>{n}\<close>, or once) or at least \<open>n\<close> times (\<open>{n,}\<close>, \<open>+\<close>). An atom is
  the class, the count \<open>n\<close>, and whether more repetitions are allowed. \<open>matchHere\<close> decides
  whether the sequence matches a prefix of the input, trying every admissible length;
  \<open>regexTest\<close> is \<open>RegExp.prototype.test\<close>: a match at some position.
\<close>

type_synonym atom = "(char \<Rightarrow> bool) \<times> nat \<times> bool"

fun matchHere :: "atom list \<Rightarrow> string \<Rightarrow> bool" where
  "matchHere [] s = True"
| "matchHere ((cls, lo, unbounded) # rest) s =
     (let n = length (takeWhile cls s) in
      if n < lo then False
      else if unbounded then list_ex (\<lambda>k. matchHere rest (drop k s)) [lo..<Suc n]
      else matchHere rest (drop lo s))"

fun regexTest :: "atom list \<Rightarrow> string \<Rightarrow> bool" where
  "regexTest pat [] = matchHere pat []"
| "regexTest pat (c # cs) = (matchHere pat (c # cs) \<or> regexTest pat cs)"

definition isDigit :: "char \<Rightarrow> bool" where
  "isDigit c = (48 \<le> (of_char c :: nat) \<and> (of_char c :: nat) \<le> 57)"

definition isAlpha :: "char \<Rightarrow> bool" where
  "isAlpha c = ((65 \<le> (of_char c :: nat) \<and> (of_char c :: nat) \<le> 90) \<or>
                (97 \<le> (of_char c :: nat) \<and> (of_char c :: nat) \<le> 122))"

definition isHex :: "char \<Rightarrow> bool" where
  "isHex c = (isDigit c \<or> (65 \<le> (of_char c :: nat) \<and> (of_char c :: nat) \<le> 70) \<or>
              (97 \<le> (of_char c :: nat) \<and> (of_char c :: nat) \<le> 102))"

definition once :: "(char \<Rightarrow> bool) \<Rightarrow> atom" where
  "once cls = (cls, 1, False)"

definition exactly :: "nat \<Rightarrow> (char \<Rightarrow> bool) \<Rightarrow> atom" where
  "exactly n cls = (cls, n, False)"

definition atLeast_times :: "nat \<Rightarrow> (char \<Rightarrow> bool) \<Rightarrow> atom" where
  "atLeast_times n cls = (cls, n, True)"

definition lit :: "char \<Rightarrow> char \<Rightarrow> bool" where
  "lit a c = (c = a)"

definition lit_ci :: "char \<Rightarrow> char \<Rightarrow> char \<Rightarrow> bool" where
  "lit_ci lower upper c = (c = lower \<or> c = upper)"

text \<open>The seven patterns of \<open>hasDynamicParts\<close>, in the source's order.\<close>

definition dynamicPatterns :: "atom list list" where
  "dynamicPatterns =
    [ [atLeast_times 4 isDigit],
      [exactly 8 isHex, once (lit CHR ''-''), exactly 4 isHex, once (lit CHR ''-''),
       exactly 4 isHex, once (lit CHR ''-''), exactly 4 isHex, once (lit CHR ''-''),
       exactly 12 isHex],
      [once (lit CHR ''#''), exactly 6 isHex],
      [once (lit_ci CHR ''j'' CHR ''J''), once (lit_ci CHR ''s'' CHR ''S''),
       once (lit_ci CHR ''s'' CHR ''S''), atLeast_times 1 isDigit],
      [atLeast_times 1 isAlpha, atLeast_times 1 isDigit,
       atLeast_times 1 isAlpha, atLeast_times 1 isDigit],
      [once (lit CHR '':''), atLeast_times 1 isDigit],
      [atLeast_times 13 isDigit] ]"

definition hasDynamicParts :: "string \<Rightarrow> bool" where
  "hasDynamicParts str =
     (if str = [] then False else list_ex (\<lambda>pattern. regexTest pattern str) dynamicPatterns)"

subsection \<open>Patterns around a quoted operand\<close>

text \<open>
  The other patterns of the source are a key, a double quote, a run of characters other
  than the double quote (possibly empty under \<open>*\<close>, non-empty and captured under \<open>+\<close>),
  a double quote and a suffix. With \<open>opening\<close> the key and its quote and \<open>closing\<close> the
  quote and the suffix, a match at the head of the input takes the opening, then every character
  up to the next double quote (the class excludes the quote and a quote must follow, so
  no shorter run can match), then the closing. \<open>lo\<close> is the least operand length:
  0 for \<open>*\<close>, 1 for \<open>+\<close>. The result is the operand and the input after the match.
\<close>

definition matchQuotedAt :: "nat \<Rightarrow> string \<Rightarrow> string \<Rightarrow> string \<Rightarrow> (string \<times> string) option" where
  "matchQuotedAt lo opening closing s =
     (if prefix opening s then
        (let rest = drop (length opening) s;
             operand = takeWhile (\<lambda>c. c \<noteq> dq) rest;
             after = dropWhile (\<lambda>c. c \<noteq> dq) rest
         in if lo \<le> length operand \<and> prefix closing after
            then Some (operand, drop (length closing) after) else None)
      else None)"

text \<open>The leftmost match: the input before it, the operand, the input after it.\<close>

fun searchQuoted :: "nat \<Rightarrow> string \<Rightarrow> string \<Rightarrow> string \<Rightarrow> (string \<times> string \<times> string) option" where
  "searchQuoted lo opening closing [] =
     (case matchQuotedAt lo opening closing [] of
        Some (operand, after) \<Rightarrow> Some ([], operand, after)
      | None \<Rightarrow> None)"
| "searchQuoted lo opening closing (c # cs) =
     (case matchQuotedAt lo opening closing (c # cs) of
        Some (operand, after) \<Rightarrow> Some ([], operand, after)
      | None \<Rightarrow>
         (case searchQuoted lo opening closing cs of
            Some (before, operand, after) \<Rightarrow> Some (c # before, operand, after)
          | None \<Rightarrow> None))"

text \<open>\<open>s.replace(pattern, replacement)\<close> without the \<open>g\<close> flag: the first match only.\<close>

definition replaceQuoted :: "string \<Rightarrow> string \<Rightarrow> string \<Rightarrow> string \<Rightarrow> string" where
  "replaceQuoted opening closing replacement s =
     (case searchQuoted 0 opening closing s of
        Some (before, operand, after) \<Rightarrow> before @ replacement @ after
      | None \<Rightarrow> s)"

text \<open>\<open>s.match(pattern)?.[1]\<close>: the first capture group, or nothing.\<close>

definition matchGroup :: "string \<Rightarrow> string \<Rightarrow> string \<Rightarrow> string option" where
  "matchGroup opening closing s =
     (case searchQuoted 1 opening closing s of
        Some (before, operand, after) \<Rightarrow> Some operand
      | None \<Rightarrow> None)"

section \<open>Exceptions\<close>

text \<open>
  A query of the document throws a \<open>SyntaxError\<close> on an expression that its selector or
  path engine rejects. A computation that may throw returns \<open>Inl\<close> the exception or
  \<open>Inr\<close> its value; \<open>try_catch\<close> is \<open>try { body } catch (e) { handler }\<close>.
\<close>

datatype exn = SyntaxError

definition and_then :: "exn + 'a \<Rightarrow> ('a \<Rightarrow> exn + 'b) \<Rightarrow> exn + 'b" where
  "and_then m f = (case m of Inl e \<Rightarrow> Inl e | Inr v \<Rightarrow> f v)"

definition try_catch :: "exn + 'a \<Rightarrow> (exn \<Rightarrow> exn + 'a) \<Rightarrow> exn + 'a" where
  "try_catch body handler = (case body of Inl e \<Rightarrow> handler e | Inr v \<Rightarrow> Inr v)"

fun traverse :: "('a \<Rightarrow> exn + 'b) \<Rightarrow> 'a list \<Rightarrow> exn + 'b list" where
  "traverse f [] = Inr []"
| "traverse f (x # xs) =
     and_then (f x) (\<lambda>y. and_then (traverse f xs) (\<lambda>ys. Inr (y # ys)))"

section \<open>The document\<close>

text \<open>
  An element of the page: its \<open>tagName\<close> (upper-case for an HTML element), its
  attributes in document order, its text content, the width and height of its bounding
  rectangle (the code only asks whether they are zero), the three computed style
  properties that \<open>isElementVisible\<close> reads, its parent element, its previous element
  sibling, \<open>nodeRef\<close>, the identity that \<open>===\<close> compares, and whether it is an SVG
  element, whose \<open>className\<close> is an object and not a string.
\<close>

datatype element = Element
  (tagName: string)
  (attributes: "(string \<times> string) list")
  (textContent: string)
  (rectWidth: int)
  (rectHeight: int)
  (visibility: string)
  (display: string)
  (opacity: string)
  (parentElement: "element option")
  (previousElementSibling: "element option")
  (nodeRef: nat)
  (isSVGElement: bool)

text \<open>
  The document as the code reads it: \<open>querySelectorAll\<close> and \<open>evaluate\<close> return the
  matching elements or throw, \<open>getElementById\<close> never throws, and \<open>body\<close> and
  \<open>documentElement\<close> are the identities of those two elements.
\<close>

record document =
  querySelectorAll :: "string \<Rightarrow> exn + element list"
  evaluate :: "string \<Rightarrow> exn + element list"
  getElementById :: "string \<Rightarrow> element option"
  body :: nat
  documentElement :: nat

text \<open>\<open>querySelector\<close> is the first element of \<open>querySelectorAll\<close>, or \<open>null\<close>.\<close>

definition querySelector :: "document \<Rightarrow> string \<Rightarrow> exn + element option" where
  "querySelector doc selector =
     and_then (querySelectorAll doc selector)
       (\<lambda>found. Inr (case found of [] \<Rightarrow> None | x # _ \<Rightarrow> Some x))"

definition getAttribute :: "element \<Rightarrow> string \<Rightarrow> string option" where
  "getAttribute el name = map_of (attributes el) name"

text \<open>
  The reflected property \<open>id\<close>: the attribute, or the empty string. \<open>className\<close> is the
  same of the \<open>class\<close> attribute when it is a string (\<open>typeof\<close> gives \<open>string\<close>), and
  nothing for an SVG element, where it is an object.
\<close>

definition element_id :: "element \<Rightarrow> string" where
  "element_id el = (case getAttribute el ''id'' of None \<Rightarrow> [] | Some v \<Rightarrow> v)"

definition className :: "element \<Rightarrow> string option" where
  "className el =
     (if isSVGElement el then None
      else Some (case getAttribute el ''class'' of None \<Rightarrow> [] | Some v \<Rightarrow> v))"

definition isElementVisible :: "element \<Rightarrow> bool" where
  "isElementVisible el =
     (rectWidth el \<noteq> 0 \<and> rectHeight el \<noteq> 0 \<and>
      visibility el \<noteq> ''hidden'' \<and>
      display el \<noteq> ''none'' \<and>
      opacity el \<noteq> ''0'')"

section \<open>Locators\<close>

datatype locatorType =
  Type_test_id | Type_role | Type_aria_label | Type_role_attr | Type_label | Type_text
  | Type_placeholder | Type_alt | Type_title | Type_name | Type_id | Type_css | Type_xpath

datatype queryType = Query_css | Query_playwright | Query_xpath

datatype stabilityLevel = Excellent | Good | Fair | Poor

record locator =
  ltype :: locatorType
  lvalue :: string
  reason :: string
  queryType :: queryType
  accessibleName :: "string option"

record rankedLocator = locator +
  score :: int
  stability :: stabilityLevel

section \<open>Scoring\<close>

definition typeBonuses :: "locatorType \<Rightarrow> int" where
  "typeBonuses t =
     (case t of
        Type_role \<Rightarrow> 90 | Type_test_id \<Rightarrow> 85 | Type_aria_label \<Rightarrow> 80
      | Type_role_attr \<Rightarrow> 70 | Type_name \<Rightarrow> 60 | Type_id \<Rightarrow> 55
      | Type_placeholder \<Rightarrow> 50 | Type_label \<Rightarrow> 45 | Type_alt \<Rightarrow> 40
      | Type_title \<Rightarrow> 35 | Type_text \<Rightarrow> 20 | Type_css \<Rightarrow> 15 | Type_xpath \<Rightarrow> 10)"

text \<open>
  The expression that the \<open>playwright\<close> branch of \<open>getMatchCount\<close> runs as a selector:
  the first quoted \<open>text=\<close> operand removed, the first \<open>label:has-text(...)\<close> with a
  quoted operand cut down to \<open>label\<close>, then every double quote removed.
\<close>

definition playwrightEstimate :: "string \<Rightarrow> string" where
  "playwrightEstimate v =
     filter (\<lambda>c. c \<noteq> dq)
       (replaceQuoted (''label:has-text('' @ [dq]) (dq # '')'') ''label''
         (replaceQuoted (''text='' @ [dq]) [dq] [] v))"

definition getMatchCount :: "document \<Rightarrow> locator \<Rightarrow> exn + nat" where
  "getMatchCount doc locator =
     try_catch
       (case queryType locator of
          Query_xpath \<Rightarrow>
            try_catch
              (and_then (evaluate doc (lvalue locator)) (\<lambda>result. Inr (length result)))
              (\<lambda>e. Inr 0)
        | Query_css \<Rightarrow>
            try_catch
              (and_then (querySelectorAll doc (lvalue locator)) (\<lambda>found. Inr (length found)))
              (\<lambda>e. Inr 0)
        | Query_playwright \<Rightarrow>
            (let est = playwrightEstimate (lvalue locator) in
             try_catch
               (and_then (querySelectorAll doc est)
                  (\<lambda>found. Inr (if length found = 0 then 1 else length found)))
               (\<lambda>e. Inr 1)))
       (\<lambda>e. Inr 0)"

text \<open>
  The score before \<open>Math.max(0, Math.min(100, score))\<close>, from the match count. Every
  term is an integer, so the \<open>Math.round\<close> of \<open>rankLocators\<close> changes nothing.
\<close>

definition rawScore :: "locator \<Rightarrow> element \<Rightarrow> nat \<Rightarrow> int" where
  "rawScore locator el matchCount =
     (let score = 50 + typeBonuses (ltype locator);
          score = (if matchCount = 1 then score + 10
                   else if matchCount > 1 then score - (int matchCount - 1) * 5
                   else if matchCount = 0 then score - 20
                   else score);
          score = (if hasDynamicParts (lvalue locator) then score - 30 else score);
          score = (if isElementVisible el then score + 5 else score);
          score = (if length (lvalue locator) < 30 then score + 5
                   else if length (lvalue locator) > 150 then score - 10
                   else score)
      in score)"

definition calculateScore :: "document \<Rightarrow> locator \<Rightarrow> element \<Rightarrow> exn + int" where
  "calculateScore doc locator el =
     and_then (getMatchCount doc locator)
       (\<lambda>matchCount. Inr (max 0 (min 100 (rawScore locator el matchCount))))"

definition getStabilityLevel :: "int \<Rightarrow> stabilityLevel" where
  "getStabilityLevel s =
     (if s \<ge> 80 then Excellent
      else if s \<ge> 60 then Good
      else if s \<ge> 40 then Fair
      else Poor)"

section \<open>Roles and accessible names\<close>

text \<open>
  \<open>roleMap\<close> is an object literal, and \<open>roleMap[element.tagName]\<close> answers its own
  fourteen keys and also the keys that every plain object inherits from
  \<open>Object.prototype\<close>. An inherited value is a function, or the prototype object under
  \<open>__proto__\<close>; it is truthy, and the template of the role candidate prints it as Chrome
  prints a native function or a plain object. \<open>roleMap\<close> gives the own value, or that
  printed form.
\<close>

definition roleMapOwn :: "string \<Rightarrow> string option" where
  "roleMapOwn = map_of
     [(''BUTTON'', ''button''), (''A'', ''link''), (''INPUT'', ''textbox''),
      (''TEXTAREA'', ''textbox''), (''SELECT'', ''combobox''),
      (''H1'', ''heading''), (''H2'', ''heading''), (''H3'', ''heading''),
      (''H4'', ''heading''), (''H5'', ''heading''), (''H6'', ''heading''),
      (''NAV'', ''navigation''), (''MAIN'', ''main''), (''FORM'', ''form'')]"

definition nativeFunction :: "string \<Rightarrow> string" where
  "nativeFunction name = ''function '' @ name @ ''() { [native code] }''"

definition inheritedValue :: "string \<Rightarrow> string option" where
  "inheritedValue key =
     (if key = ''constructor'' then Some (nativeFunction ''Object'')
      else if key \<in> set [''__defineGetter__'', ''__defineSetter__'', ''hasOwnProperty'',
                         ''__lookupGetter__'', ''__lookupSetter__'', ''isPrototypeOf'',
                         ''propertyIsEnumerable'', ''toString'', ''valueOf'',
                         ''toLocaleString'']
      then Some (nativeFunction key)
      else if key = ''__proto__'' then Some ''[object Object]''
      else None)"

definition roleMap :: "string \<Rightarrow> string option" where
  "roleMap key =
     (case roleMapOwn key of Some role \<Rightarrow> Some role | None \<Rightarrow> inheritedValue key)"

definition getImplicitRole :: "element \<Rightarrow> string option" where
  "getImplicitRole el =
     (let role = roleMap (tagName el);
          type = getAttribute el ''type''
      in if tagName el = ''INPUT'' \<and> type = Some ''checkbox'' then Some ''checkbox''
         else if tagName el = ''INPUT'' \<and> type = Some ''radio'' then Some ''radio''
         else if tagName el = ''INPUT'' \<and> type = Some ''submit'' then Some ''button''
         else if tagName el = ''INPUT'' \<and> type = Some ''button'' then Some ''button''
         else or_else role None)"

text \<open>The lookup of the \<open>label\<close> element whose \<open>for\<close> is the given id, as both callers write it.\<close>

definition labelFor :: "document \<Rightarrow> string \<Rightarrow> exn + element option" where
  "labelFor doc ident = querySelector doc (''label[for='' @ quoted ident @ '']'')"

text \<open>
  \<open>getAccessibleName\<close> is six steps in a row, each of which either returns a name or
  falls through to the next. A step is \<open>Inr (Some name)\<close> when it returns, \<open>Inr None\<close>
  when it falls through, and \<open>Inl\<close> when it throws; \<open>firstReturn\<close> runs the steps in
  order and stops at the first that returns or throws. After the last step the function
  returns \<open>null\<close>.
\<close>

fun firstReturn :: "(exn + string option) list \<Rightarrow> exn + string option" where
  "firstReturn [] = Inr None"
| "firstReturn (step # rest) =
     (case step of
        Inl e \<Rightarrow> Inl e
      | Inr (Some name) \<Rightarrow> Inr (Some name)
      | Inr None \<Rightarrow> firstReturn rest)"

definition returnIfTruthy :: "string option \<Rightarrow> exn + string option" where
  "returnIfTruthy v = (if truthy v then Inr v else Inr None)"

definition nameFromAriaLabel :: "element \<Rightarrow> exn + string option" where
  "nameFromAriaLabel el = returnIfTruthy (getAttribute el ''aria-label'')"

definition nameFromLabelledBy :: "document \<Rightarrow> element \<Rightarrow> exn + string option" where
  "nameFromLabelledBy doc el =
     (case getAttribute el ''aria-labelledby'' of
        None \<Rightarrow> Inr None
      | Some ariaLabelledBy \<Rightarrow>
          if ariaLabelledBy = [] then Inr None
          else (case getElementById doc ariaLabelledBy of
                  None \<Rightarrow> Inr None
                | Some labelEl \<Rightarrow> Inr (Some (trim (textContent labelEl)))))"

definition nameFromOwnText :: "string \<Rightarrow> element \<Rightarrow> exn + string option" where
  "nameFromOwnText tag el =
     (if tagName el = tag then returnIfTruthy (Some (trim (textContent el))) else Inr None)"

definition nameFromInput :: "document \<Rightarrow> element \<Rightarrow> exn + string option" where
  "nameFromInput doc el =
     (if tagName el = ''INPUT'' then
        and_then (if element_id el \<noteq> [] then labelFor doc (element_id el) else Inr None)
          (\<lambda>label. case label of
               Some l \<Rightarrow> Inr (Some (trim (textContent l)))
             | None \<Rightarrow> returnIfTruthy (getAttribute el ''placeholder''))
      else Inr None)"

definition nameFromAlt :: "element \<Rightarrow> exn + string option" where
  "nameFromAlt el =
     (if tagName el = ''IMG'' then returnIfTruthy (getAttribute el ''alt'') else Inr None)"

definition getAccessibleName :: "document \<Rightarrow> element \<Rightarrow> exn + string option" where
  "getAccessibleName doc el =
     firstReturn
       [nameFromAriaLabel el,
        nameFromLabelledBy doc el,
        nameFromOwnText ''BUTTON'' el,
        nameFromInput doc el,
        nameFromOwnText ''A'' el,
        nameFromAlt el]"

section \<open>Selector synthesis\<close>

definition getStableText :: "element \<Rightarrow> string option" where
  "getStableText el =
     (let text = trim (textContent el)
      in if text = [] then None else Some (take 100 (collapseWhiteSpace text)))"

text \<open>
  One level of the CSS path: the lower-case tag, the first class token unless
  \<open>className\<close> is not a string or the token is empty or holds a colon, and the first of \<open>name\<close>, \<open>placeholder\<close>, \<open>title\<close>, \<open>type\<close>
  whose value is non-empty and not dynamic.
\<close>

fun attributeSuffix :: "element \<Rightarrow> string list \<Rightarrow> string" where
  "attributeSuffix current [] = []"
| "attributeSuffix current (attr # rest) =
     (case getAttribute current attr of
        None \<Rightarrow> attributeSuffix current rest
      | Some v \<Rightarrow>
          if v \<noteq> [] \<and> \<not> hasDynamicParts v then ''['' @ attr @ ''='' @ quoted v @ '']''
          else attributeSuffix current rest)"

definition levelSelector :: "element \<Rightarrow> string" where
  "levelSelector current =
     (let selector = toLowerCase (tagName current);
          selector =
            (case className current of
               None \<Rightarrow> selector
             | Some classes \<Rightarrow>
                 (let firstClass = takeWhile (\<lambda>c. c \<noteq> CHR '' '') classes
                  in if classes \<noteq> [] \<and> firstClass \<noteq> [] \<and>
                        \<not> str_includes firstClass CHR '':''
                     then selector @ ''.'' @ firstClass else selector))
      in selector @ attributeSuffix current [''name'', ''placeholder'', ''title'', ''type''])"

text \<open>
  The loop of \<open>generateCssSelector\<close>: \<open>current\<close> climbs through \<open>parentElement\<close> until it
  is \<open>null\<close>, is the body, or five levels are done; \<open>parts\<close> is built by \<open>unshift\<close>.
\<close>

function cssWalk :: "document \<Rightarrow> element option \<Rightarrow> nat \<Rightarrow> string list \<Rightarrow> string list" where
  "cssWalk doc current depth parts =
     (case current of
        None \<Rightarrow> parts
      | Some cur \<Rightarrow>
          if nodeRef cur \<noteq> body doc \<and> depth < 5
          then cssWalk doc (parentElement cur) (depth + 1) (levelSelector cur # parts)
          else parts)"
  by pat_completeness auto
termination
  by (relation "measure (\<lambda>(doc, current, depth, parts). 5 - depth)") auto

definition generateCssSelector :: "document \<Rightarrow> element \<Rightarrow> string" where
  "generateCssSelector doc el =
     (if element_id el \<noteq> [] then ''#'' @ element_id el
      else join '' > '' (cssWalk doc (Some el) 0 []))"

text \<open>
  The inner loop of \<open>generateXPath\<close> counts the previous element siblings with the tag
  of \<open>current\<close>; the outer loop climbs to the document element or to an element without
  a parent element.
\<close>

fun countSameTag :: "string \<Rightarrow> element option \<Rightarrow> nat \<Rightarrow> nat" where
  "countSameTag tag None index = index"
| "countSameTag tag (Some (Element t a x w h v d c p s r g)) index =
     countSameTag tag s (if t = tag then index + 1 else index)"

fun xpathWalk :: "document \<Rightarrow> element option \<Rightarrow> string list \<Rightarrow> string list" where
  "xpathWalk doc None parts = parts"
| "xpathWalk doc (Some (Element t a x w h v d c p s r g)) parts =
     (let index = countSameTag t s 0;
          tag = toLowerCase t;
          part = (if index \<noteq> 0 then tag @ ''['' @ showNat (index + 1) @ '']'' else tag)
      in if r = documentElement doc then part # parts
         else xpathWalk doc p (part # parts))"

definition generateXPath :: "document \<Rightarrow> element \<Rightarrow> string" where
  "generateXPath doc el =
     (if element_id el \<noteq> [] then ''//*[@id='' @ quoted (element_id el) @ '']''
      else ''/'' @ join ''/'' (xpathWalk doc (Some el) []))"

section \<open>Candidate generation\<close>

definition mkLocator :: "locatorType \<Rightarrow> string \<Rightarrow> string \<Rightarrow> queryType \<Rightarrow> locator" where
  "mkLocator t v r q =
     \<lparr>ltype = t, lvalue = v, reason = r, queryType = q, accessibleName = None\<rparr>"

text \<open>\<open>if (v) { locators.push(f(v)) }\<close> for a value that is a string or \<open>null\<close>.\<close>

definition pushIfTruthy :: "string option \<Rightarrow> (string \<Rightarrow> locator) \<Rightarrow> locator list" where
  "pushIfTruthy v f = (case v of None \<Rightarrow> [] | Some s \<Rightarrow> if s \<noteq> [] then [f s] else [])"

definition testIdLocators :: "element \<Rightarrow> locator list" where
  "testIdLocators el =
     pushIfTruthy
       (or_else (or_else (or_else (or_else (getAttribute el ''data-testid'')
                                            (getAttribute el ''data-test-id''))
                                   (getAttribute el ''data-test''))
                          (getAttribute el ''data-qa''))
                (getAttribute el ''data-cy''))
       (\<lambda>testId. mkLocator Type_test_id (''[data-testid='' @ quoted testId @ '']'')
                    ''Explicit test identifier'' Query_css)"

definition roleLocators :: "element \<Rightarrow> string option \<Rightarrow> locator list" where
  "roleLocators el name =
     (let role = or_else (getAttribute el ''role'') (getImplicitRole el)
      in if truthy role \<and> truthy name
         then pushIfTruthy role
                (\<lambda>role. \<lparr>ltype = Type_role, lvalue = ''role='' @ quoted role,
                          reason = ''ARIA role with accessible name'',
                          queryType = Query_css, accessibleName = name\<rparr>)
         else [])"

definition ariaLabelLocators :: "element \<Rightarrow> locator list" where
  "ariaLabelLocators el =
     pushIfTruthy (getAttribute el ''aria-label'')
       (\<lambda>ariaLabel. mkLocator Type_aria_label (''[aria-label='' @ quoted ariaLabel @ '']'')
                       ''Accessibility label'' Query_css)"

definition roleAttrLocators :: "element \<Rightarrow> string option \<Rightarrow> locator list" where
  "roleAttrLocators el name =
     (if \<not> truthy name
      then pushIfTruthy (getAttribute el ''role'')
             (\<lambda>ariaRole. mkLocator Type_role_attr (''[role='' @ quoted ariaRole @ '']'')
                            ''ARIA role attribute'' Query_css)
      else [])"

definition labelLocators :: "document \<Rightarrow> element \<Rightarrow> exn + locator list" where
  "labelLocators doc el =
     (if element_id el \<noteq> [] then
        and_then (labelFor doc (element_id el))
          (\<lambda>label. case label of
               None \<Rightarrow> Inr []
             | Some l \<Rightarrow>
                 Inr [mkLocator Type_label
                        (''label:has-text('' @ quoted (trim (textContent l)) @ '')'')
                        ''Form label association'' Query_playwright])
      else Inr [])"

definition textLocators :: "element \<Rightarrow> locator list" where
  "textLocators el =
     (case getStableText el of
        None \<Rightarrow> []
      | Some text \<Rightarrow>
          if text \<noteq> [] \<and> length text < 100
          then [mkLocator Type_text (''text='' @ quoted text)
                  ''Visible text content'' Query_playwright]
          else [])"

definition placeholderLocators :: "element \<Rightarrow> locator list" where
  "placeholderLocators el =
     pushIfTruthy (getAttribute el ''placeholder'')
       (\<lambda>placeholder. mkLocator Type_placeholder (''[placeholder='' @ quoted placeholder @ '']'')
                         ''Input placeholder'' Query_css)"

definition altLocators :: "element \<Rightarrow> locator list" where
  "altLocators el =
     pushIfTruthy (getAttribute el ''alt'')
       (\<lambda>alt. mkLocator Type_alt (''img[alt='' @ quoted alt @ '']'')
                 ''Image alt text'' Query_css)"

definition titleLocators :: "element \<Rightarrow> locator list" where
  "titleLocators el =
     pushIfTruthy (getAttribute el ''title'')
       (\<lambda>title. mkLocator Type_title (''[title='' @ quoted title @ '']'')
                   ''Title attribute'' Query_css)"

definition nameLocators :: "element \<Rightarrow> locator list" where
  "nameLocators el =
     pushIfTruthy (getAttribute el ''name'')
       (\<lambda>name. mkLocator Type_name (''[name='' @ quoted name @ '']'')
                  ''Form element name'' Query_css)"

definition idLocators :: "element \<Rightarrow> locator list" where
  "idLocators el =
     (if element_id el \<noteq> [] \<and> \<not> str_includes (element_id el) CHR '':''
      then [mkLocator Type_id (''#'' @ element_id el) ''Element ID'' Query_css]
      else [])"

definition cssLocators :: "document \<Rightarrow> element \<Rightarrow> locator list" where
  "cssLocators doc el =
     (let cssSelector = generateCssSelector doc el
      in if cssSelector \<noteq> []
         then [mkLocator Type_css cssSelector ''CSS selector'' Query_css]
         else [])"

definition xpathLocator :: "document \<Rightarrow> element \<Rightarrow> locator" where
  "xpathLocator doc el =
     mkLocator Type_xpath (generateXPath doc el) ''XPath selector'' Query_xpath"

text \<open>
  \<open>generateLocators\<close> pushes the candidates of its thirteen steps in order. Two of its
  calls can throw, in this order: \<open>getAccessibleName\<close> at step 2 and the label lookup at
  step 5; neither is inside a \<open>try\<close>.
\<close>

definition generateLocators :: "document \<Rightarrow> element \<Rightarrow> exn + locator list" where
  "generateLocators doc el =
     and_then (getAccessibleName doc el) (\<lambda>name.
     and_then (labelLocators doc el) (\<lambda>labels.
       Inr (testIdLocators el @ roleLocators el name @ ariaLabelLocators el @
            roleAttrLocators el name @ labels @ textLocators el @
            placeholderLocators el @ altLocators el @ titleLocators el @
            nameLocators el @ idLocators el @ cssLocators doc el @
            [xpathLocator doc el])))"

section \<open>Ranking\<close>

text \<open>
  \<open>Array.prototype.sort\<close> with a comparator, which ECMAScript requires to be stable: an
  insertion sort that puts an element before the first one it does not compare greater
  than.
\<close>

fun insertBy :: "('a \<Rightarrow> 'a \<Rightarrow> int) \<Rightarrow> 'a \<Rightarrow> 'a list \<Rightarrow> 'a list" where
  "insertBy cmp x [] = [x]"
| "insertBy cmp x (y # ys) =
     (if cmp x y \<le> 0 then x # y # ys else y # insertBy cmp x ys)"

definition array_sort :: "('a \<Rightarrow> 'a \<Rightarrow> int) \<Rightarrow> 'a list \<Rightarrow> 'a list" where
  "array_sort cmp xs = foldr (insertBy cmp) xs []"

definition scoreLocator :: "document \<Rightarrow> element \<Rightarrow> locator \<Rightarrow> exn + rankedLocator" where
  "scoreLocator doc el l =
     and_then (calculateScore doc l el) (\<lambda>s.
       Inr \<lparr>ltype = ltype l, lvalue = lvalue l, reason = reason l,
            queryType = queryType l, accessibleName = accessibleName l,
            score = s, stability = getStabilityLevel s\<rparr>)"

definition rankLocators :: "document \<Rightarrow> locator list \<Rightarrow> element \<Rightarrow> exn + rankedLocator list" where
  "rankLocators doc locators el =
     and_then (traverse (scoreLocator doc el) locators)
       (\<lambda>scored. Inr (array_sort (\<lambda>a b. score b - score a) scored))"

text \<open>Of the report of \<open>buildLocatorInfo\<close>, the fields that the locator engine decides.\<close>

record locatorInfo =
  tag :: string
  isVisible :: bool
  locators :: "rankedLocator list"

definition buildLocatorInfo :: "document \<Rightarrow> element \<Rightarrow> exn + locatorInfo" where
  "buildLocatorInfo doc el =
     and_then (generateLocators doc el) (\<lambda>generated.
     and_then (rankLocators doc generated el) (\<lambda>rankedLocators.
       Inr \<lparr>tag = toLowerCase (tagName el), isVisible = isElementVisible el,
            locators = rankedLocators\<rparr>))"

section \<open>Framework code\<close>

abbreviation sq :: char where
  "sq \<equiv> CHR 0x27"

definition squoted :: "string \<Rightarrow> string" where
  "squoted s = sq # s @ [sq]"

text \<open>The first capture group of the pattern for an attribute-like key, or nothing.\<close>

definition operandOf :: "string \<Rightarrow> string \<Rightarrow> string option" where
  "operandOf key v = matchGroup (key @ ''='' @ [dq]) [dq] v"

definition labelOperand :: "string \<Rightarrow> string option" where
  "labelOperand v = matchGroup (''label:has-text('' @ [dq]) (dq # '')'') v"

text \<open>
  Each \<open>switch\<close> is the table of its \<open>case\<close> labels, each with the body that runs for
  it on the locator's \<open>value\<close> and \<open>accessibleName\<close>, and its \<open>default\<close> branch, which runs
  for a type without a label. \<open>value.replace('#', '')\<close> removes the first \<open>#\<close>.
\<close>

definition playwrightDefault :: "string \<Rightarrow> string" where
  "playwrightDefault v = ''page.locator('' @ squoted v @ '')''"

definition playwrightCase :: "locatorType \<Rightarrow> (string \<Rightarrow> string option \<Rightarrow> string) option" where
  "playwrightCase t =
     (case t of
        Type_test_id \<Rightarrow> Some (\<lambda>v name.
          case operandOf ''data-testid'' v of
            Some testId \<Rightarrow> ''page.getByTestId('' @ squoted testId @ '')'' | None \<Rightarrow> v)
      | Type_role \<Rightarrow> Some (\<lambda>v name.
          case operandOf ''role'' v of
            Some role \<Rightarrow>
              (case name of
                 Some n \<Rightarrow>
                   if n \<noteq> []
                   then ''page.getByRole('' @ squoted role @ '', { name: '' @ squoted n @ '' })''
                   else v
               | None \<Rightarrow> v)
          | None \<Rightarrow> v)
      | Type_role_attr \<Rightarrow> Some (\<lambda>v name.
          case operandOf ''role'' v of
            Some role \<Rightarrow> ''page.getByRole('' @ squoted role @ '')'' | None \<Rightarrow> v)
      | Type_aria_label \<Rightarrow> Some (\<lambda>v name.
          case operandOf ''aria-label'' v of
            Some ariaLabel \<Rightarrow> ''page.getByLabel('' @ squoted ariaLabel @ '')'' | None \<Rightarrow> v)
      | Type_text \<Rightarrow> Some (\<lambda>v name.
          case operandOf ''text'' v of
            Some text \<Rightarrow> ''page.getByText('' @ squoted text @ '')'' | None \<Rightarrow> v)
      | Type_placeholder \<Rightarrow> Some (\<lambda>v name.
          case operandOf ''placeholder'' v of
            Some placeholder \<Rightarrow> ''page.getByPlaceholder('' @ squoted placeholder @ '')''
          | None \<Rightarrow> v)
      | Type_alt \<Rightarrow> Some (\<lambda>v name.
          case operandOf ''alt'' v of
            Some alt \<Rightarrow> ''page.getByAltText('' @ squoted alt @ '')'' | None \<Rightarrow> v)
      | Type_label \<Rightarrow> Some (\<lambda>v name.
          case labelOperand v of
            Some labelText \<Rightarrow> ''page.getByLabel('' @ squoted labelText @ '')'' | None \<Rightarrow> v)
      | Type_id \<Rightarrow> Some (\<lambda>v name.
          ''page.locator('' @ squoted (''#'' @ remove1 CHR ''#'' v) @ '')'')
      | Type_name \<Rightarrow> Some (\<lambda>v name.
          case operandOf ''name'' v of
            Some n \<Rightarrow> ''page.getByRole('' @ squoted ''textbox'' @ '', { name: '' @ squoted n @ '' })''
          | None \<Rightarrow> ''page.locator('' @ squoted v @ '')'')
      | Type_css \<Rightarrow> Some (\<lambda>v name. ''page.locator('' @ squoted v @ '')'')
      | Type_xpath \<Rightarrow> Some (\<lambda>v name. ''page.locator('' @ squoted (''xpath='' @ v) @ '')'')
      | Type_title \<Rightarrow> None)"

definition convertToPlaywright :: "'a locator_scheme \<Rightarrow> string" where
  "convertToPlaywright l =
     (case playwrightCase (ltype l) of
        Some template \<Rightarrow> template (lvalue l) (accessibleName l)
      | None \<Rightarrow> playwrightDefault (lvalue l))"

definition seleniumCss :: "string \<Rightarrow> string" where
  "seleniumCss selector = ''driver.find_element(By.CSS_SELECTOR, '' @ squoted selector @ '')''"

definition seleniumDefault :: "string \<Rightarrow> string" where
  "seleniumDefault v = seleniumCss v"

definition seleniumCase :: "locatorType \<Rightarrow> (string \<Rightarrow> string) option" where
  "seleniumCase t =
     (case t of
        Type_id \<Rightarrow> Some (\<lambda>v.
          ''driver.find_element(By.ID, '' @ squoted (remove1 CHR ''#'' v) @ '')'')
      | Type_css \<Rightarrow> Some (\<lambda>v. seleniumCss v)
      | Type_xpath \<Rightarrow> Some (\<lambda>v. ''driver.find_element(By.XPATH, '' @ squoted v @ '')'')
      | Type_test_id \<Rightarrow> Some (\<lambda>v.
          case operandOf ''data-testid'' v of
            Some testId \<Rightarrow> seleniumCss (''[data-testid='' @ quoted testId @ '']'') | None \<Rightarrow> v)
      | Type_name \<Rightarrow> Some (\<lambda>v.
          case operandOf ''name'' v of
            Some n \<Rightarrow> ''driver.find_element(By.NAME, '' @ squoted n @ '')'' | None \<Rightarrow> v)
      | Type_aria_label \<Rightarrow> Some (\<lambda>v.
          case operandOf ''aria-label'' v of
            Some ariaLabel \<Rightarrow> seleniumCss (''[aria-label='' @ quoted ariaLabel @ '']'')
          | None \<Rightarrow> v)
      | Type_placeholder \<Rightarrow> Some (\<lambda>v.
          case operandOf ''placeholder'' v of
            Some placeholder \<Rightarrow> seleniumCss (''[placeholder='' @ quoted placeholder @ '']'')
          | None \<Rightarrow> v)
      | Type_label \<Rightarrow> Some (\<lambda>v.
          case labelOperand v of
            Some labelText \<Rightarrow>
              ''driver.find_element(By.XPATH, '' @
                quoted (''//label[contains(text(), '' @ squoted labelText @ '')]/..//*[@name]'') @
              '')''
          | None \<Rightarrow> v)
      | Type_text \<Rightarrow> Some (\<lambda>v.
          case operandOf ''text'' v of
            Some text \<Rightarrow>
              ''driver.find_element(By.XPATH, '' @
                quoted (''//*[contains(text(), '' @ squoted text @ '')]'') @ '')''
          | None \<Rightarrow> v)
      | Type_alt \<Rightarrow> Some (\<lambda>v.
          case operandOf ''alt'' v of
            Some alt \<Rightarrow> seleniumCss (''img[alt='' @ quoted alt @ '']'') | None \<Rightarrow> v)
      | Type_role \<Rightarrow> Some (\<lambda>v.
          case operandOf ''role'' v of
            Some role \<Rightarrow> seleniumCss (''[role='' @ quoted role @ '']'') | None \<Rightarrow> v)
      | Type_role_attr \<Rightarrow> None
      | Type_title \<Rightarrow> None)"

definition convertToSelenium :: "'a locator_scheme \<Rightarrow> string" where
  "convertToSelenium l =
     (case seleniumCase (ltype l) of
        Some template \<Rightarrow> template (lvalue l)
      | None \<Rightarrow> seleniumDefault (lvalue l))"

definition convertToFramework :: "'a locator_scheme \<Rightarrow> string \<Rightarrow> string" where
  "convertToFramework l framework =
     (if toLowerCase framework = ''playwright'' then convertToPlaywright l
      else if toLowerCase framework = ''selenium'' then convertToSelenium l
      else lvalue l)"

section \<open>The resolution order of the specification\<close>

text \<open>
  The accessible-name order as the specification lists it (section 4.1), first match
  wins, with an attribute or text value counting only when it is non-empty: the
  \<open>aria-label\<close> value; the trimmed text of the element that \<open>aria-labelledby\<close> names;
  for a button its trimmed text; for an input the trimmed text of its \<open>label[for]\<close>,
  else its placeholder; for an anchor its trimmed text; for an image its \<open>alt\<close>;
  otherwise nothing.
\<close>

definition labelledByElement :: "document \<Rightarrow> element \<Rightarrow> element option" where
  "labelledByElement doc el =
     (case getAttribute el ''aria-labelledby'' of
        None \<Rightarrow> None
      | Some ref \<Rightarrow> if ref = [] then None else getElementById doc ref)"

definition resolveAccessibleName :: "document \<Rightarrow> element \<Rightarrow> exn + string option" where
  "resolveAccessibleName doc el =
     (if truthy (getAttribute el ''aria-label'') then Inr (getAttribute el ''aria-label'')
      else case labelledByElement doc el of
        Some labelEl \<Rightarrow> Inr (Some (trim (textContent labelEl)))
      | None \<Rightarrow>
          if tagName el = ''BUTTON'' \<and> trim (textContent el) \<noteq> []
          then Inr (Some (trim (textContent el)))
          else if tagName el = ''INPUT'' then
            (case (if element_id el \<noteq> [] then labelFor doc (element_id el) else Inr None) of
               Inl e \<Rightarrow> Inl e
             | Inr (Some l) \<Rightarrow> Inr (Some (trim (textContent l)))
             | Inr None \<Rightarrow>
                 if truthy (getAttribute el ''placeholder'')
                 then Inr (getAttribute el ''placeholder'') else Inr None)
          else if tagName el = ''A'' \<and> trim (textContent el) \<noteq> []
          then Inr (Some (trim (textContent el)))
          else if tagName el = ''IMG'' \<and> truthy (getAttribute el ''alt'')
          then Inr (getAttribute el ''alt'')
          else Inr None)"

section \<open>Example pages\<close>

text \<open>
  A page whose body holds one element. \<open>onPage\<close> places an HTML element, given by its
  tag, attributes and text, as the only child of the body, visible, with node identity 2.
\<close>

definition htmlElement :: element where
  "htmlElement =
     Element ''HTML'' [] [] 800 600 ''visible'' ''block'' ''1'' None None 0 False"

definition bodyElement :: element where
  "bodyElement =
     Element ''BODY'' [] [] 800 600 ''visible'' ''block'' ''1'' (Some htmlElement) None 1
       False"

definition onPage :: "string \<Rightarrow> (string \<times> string) list \<Rightarrow> string \<Rightarrow> element" where
  "onPage t attrs text =
     Element t attrs text 80 24 ''visible'' ''block'' ''1'' (Some bodyElement) None 2
       False"

text \<open>
  \<open>pageOf el rejects\<close> is a document that holds no \<open>label\<close> element: an accepted
  selector that starts with \<open>label\<close> finds nothing and every other accepted query finds
  exactly \<open>el\<close>; \<open>rejects\<close> says which selectors the selector engine refuses, and no
  element is found by id.
\<close>

definition pageOf :: "element \<Rightarrow> (string \<Rightarrow> bool) \<Rightarrow> document" where
  "pageOf el rejects =
     \<lparr>querySelectorAll =
        (\<lambda>selector. if rejects selector then Inl SyntaxError
                    else if take 5 selector = ''label'' then Inr []
                    else Inr [el]),
      evaluate = (\<lambda>path. Inr [el]),
      getElementById = (\<lambda>ident. None),
      body = 1, documentElement = 0\<rparr>"

text \<open>
  What a selector engine refuses among the selectors these examples run: the empty
  selector, a type selector followed by \<open>=\<close> (as in the expression of a role candidate),
  and an attribute selector whose quoted operand holds a double quote.
\<close>

definition engineRejects :: "string \<Rightarrow> bool" where
  "engineRejects selector =
     (selector = [] \<or> take 5 selector = ''role='' \<or>
      selector = ''label[for='' @ quoted (''a'' @ [dq] @ ''b'') @ '']'')"

text \<open>The button of the scenario: test id \<open>login-btn\<close>, label \<open>Sign in\<close>, text \<open>Login\<close>.\<close>

definition loginButton :: element where
  "loginButton =
     onPage ''BUTTON'' [(''data-testid'', ''login-btn''), (''aria-label'', ''Sign in'')] ''Login''"

definition loginPage :: document where
  "loginPage = pageOf loginButton engineRejects"

text \<open>The same button in a document whose engine accepts every selector.\<close>

definition lenientPage :: document where
  "lenientPage = pageOf loginButton (\<lambda>selector. False)"

text \<open>A button with label \<open>Save\<close> and text \<open>Click me\<close>, and the same with an empty label.\<close>

definition saveButton :: element where
  "saveButton = onPage ''BUTTON'' [(''aria-label'', ''Save'')] ''Click me''"

definition emptyLabelButton :: element where
  "emptyLabelButton = onPage ''BUTTON'' [(''aria-label'', [])] ''Click me''"

text \<open>An element whose id holds a colon, and one whose id holds a double quote.\<close>

definition colonIdDiv :: element where
  "colonIdDiv = onPage ''DIV'' [(''id'', ''a:b'')] []"

definition quoteIdDiv :: element where
  "quoteIdDiv = onPage ''DIV'' [(''id'', ''a'' @ [dq] @ ''b'')] []"

text \<open>A paragraph whose text is one hundred letters.\<close>

definition hundredLetters :: element where
  "hundredLetters = onPage ''P'' [] (replicate 100 CHR ''a'')"

text \<open>A title candidate and a bare-role candidate, as \<open>generateLocators\<close> writes them.\<close>

definition titleCandidate :: locator where
  "titleCandidate =
     mkLocator Type_title (''[title='' @ quoted ''Help'' @ '']'') ''Title attribute'' Query_css"

definition roleAttrCandidate :: locator where
  "roleAttrCandidate =
     mkLocator Type_role_attr (''[role='' @ quoted ''tab'' @ '']'') ''ARIA role attribute'' Query_css"

text \<open>The candidates that \<open>generateLocators\<close> pushes for the login button, in order.\<close>

definition loginRoleCandidate :: locator where
  "loginRoleCandidate =
     \<lparr>ltype = Type_role, lvalue = ''role='' @ quoted ''button'',
      reason = ''ARIA role with accessible name'', queryType = Query_css,
      accessibleName = Some ''Sign in''\<rparr>"

definition loginCandidates :: "locator list" where
  "loginCandidates =
     [mkLocator Type_test_id (''[data-testid='' @ quoted ''login-btn'' @ '']'')
        ''Explicit test identifier'' Query_css,
      loginRoleCandidate,
      mkLocator Type_aria_label (''[aria-label='' @ quoted ''Sign in'' @ '']'')
        ''Accessibility label'' Query_css,
      mkLocator Type_text (''text='' @ quoted ''Login'') ''Visible text content''
        Query_playwright,
      mkLocator Type_css ''button'' ''CSS selector'' Query_css,
      mkLocator Type_xpath ''/html/body/button'' ''XPath selector'' Query_xpath]"

section \<open>The expressions of the thirteen kinds\<close>

text \<open>
  The expression that \<open>generateLocators\<close> writes for each kind around its operand \<open>X\<close>
  (for a CSS or XPath candidate the operand is the whole expression), and a candidate of
  that kind; only a role candidate carries an accessible name.
\<close>

definition expressionOf :: "locatorType \<Rightarrow> string \<Rightarrow> string" where
  "expressionOf t X =
     (case t of
        Type_test_id \<Rightarrow> ''[data-testid='' @ quoted X @ '']''
      | Type_role \<Rightarrow> ''role='' @ quoted X
      | Type_aria_label \<Rightarrow> ''[aria-label='' @ quoted X @ '']''
      | Type_role_attr \<Rightarrow> ''[role='' @ quoted X @ '']''
      | Type_label \<Rightarrow> ''label:has-text('' @ quoted X @ '')''
      | Type_text \<Rightarrow> ''text='' @ quoted X
      | Type_placeholder \<Rightarrow> ''[placeholder='' @ quoted X @ '']''
      | Type_alt \<Rightarrow> ''img[alt='' @ quoted X @ '']''
      | Type_title \<Rightarrow> ''[title='' @ quoted X @ '']''
      | Type_name \<Rightarrow> ''[name='' @ quoted X @ '']''
      | Type_id \<Rightarrow> ''#'' @ X
      | Type_css \<Rightarrow> X
      | Type_xpath \<Rightarrow> X)"

definition candidateOf :: "locatorType \<Rightarrow> string \<Rightarrow> string \<Rightarrow> locator" where
  "candidateOf t X N =
     \<lparr>ltype = t, lvalue = expressionOf t X, reason = [], queryType = Query_css,
      accessibleName = (if t = Type_role then Some N else None)\<rparr>"

section \<open>An assumption on the selector engine\<close>

text \<open>
  In a selector a type selector cannot be followed by \<open>=\<close>, so an engine that follows
  the selector grammar refuses every expression that a role candidate carries:
  \<open>role=\<close> and a quoted operand. The document is a parameter of this development;
  this predicate says that its engine does so.
\<close>

definition rejectsRoleExpressions :: "document \<Rightarrow> bool" where
  "rejectsRoleExpressions doc =
     (\<forall>role. \<exists>e. querySelectorAll doc (''role='' @ quoted role) = Inl e)"

section \<open>Quoted operands\<close>

lemma takeWhile_operand:
  "dq \<notin> set X \<Longrightarrow> takeWhile (\<lambda>c. c \<noteq> dq) (X @ dq # rest) = X"
  by (induction X) auto

lemma dropWhile_operand:
  "dq \<notin> set X \<Longrightarrow> dropWhile (\<lambda>c. c \<noteq> dq) (X @ dq # rest) = dq # rest"
  by (induction X) auto

lemmas operand_simps =
  operandOf_def labelOperand_def matchGroup_def matchQuotedAt_def quoted_def
  takeWhile_operand dropWhile_operand Suc_le_eq

text \<open>A match needs two double quotes: the one of the opening and the one of the closing.\<close>

lemma matchQuotedAt_two_quotes:
  assumes "matchQuotedAt lo (op @ [dq]) (dq # cl) s = Some r"
  shows "2 \<le> length (filter (\<lambda>c. c = dq) s)"
proof -
  from assms have p: "prefix (op @ [dq]) s"
    by (simp add: matchQuotedAt_def split: if_splits)
  then obtain rest where s: "s = op @ dq # rest"
    by (auto simp: prefix_def)
  from assms s have "prefix (dq # cl) (dropWhile (\<lambda>c. c \<noteq> dq) rest)"
    by (simp add: matchQuotedAt_def Let_def split: if_splits)
  then obtain zs where "dropWhile (\<lambda>c. c \<noteq> dq) rest = dq # cl @ zs"
    by (auto simp: prefix_def)
  then have "dq \<in> set (dropWhile (\<lambda>c. c \<noteq> dq) rest)"
    by simp
  then have "dq \<in> set rest"
    by (rule set_dropWhileD)
  then have "filter (\<lambda>c. c = dq) rest \<noteq> []"
    by (simp add: filter_empty_conv)
  then have "1 \<le> length (filter (\<lambda>c. c = dq) rest)"
    by (cases "filter (\<lambda>c. c = dq) rest") auto
  with s show ?thesis by simp
qed

lemma searchQuoted_two_quotes:
  "length (filter (\<lambda>c. c = dq) s) < 2 \<Longrightarrow>
   searchQuoted lo (op @ [dq]) (dq # cl) s = None"
proof (induction s)
  case Nil
  then show ?case
    using matchQuotedAt_two_quotes [of lo op cl "[]"]
    by (cases "matchQuotedAt lo (op @ [dq]) (dq # cl) []") auto
next
  case (Cons c cs)
  have m: "matchQuotedAt lo (op @ [dq]) (dq # cl) (c # cs) = None"
    using matchQuotedAt_two_quotes [of lo op cl "c # cs"] Cons.prems
    by (cases "matchQuotedAt lo (op @ [dq]) (dq # cl) (c # cs)") auto
  have "length (filter (\<lambda>c. c = dq) cs) < 2"
    using Cons.prems by (simp split: if_splits)
  with Cons.IH m show ?case by simp
qed

text \<open>
  What the \<open>playwright\<close> branch runs for the two candidates of that dialect when the
  operand holds no double quote: the empty selector for a text candidate, and \<open>label\<close>
  for a label candidate.
\<close>

lemma playwrightEstimate_text:
  "dq \<notin> set X \<Longrightarrow> playwrightEstimate (''text='' @ quoted X) = []"
  by (simp add: playwrightEstimate_def replaceQuoted_def operand_simps)

lemma playwrightEstimate_label:
  assumes "dq \<notin> set X"
  shows "playwrightEstimate (''label:has-text('' @ quoted X @ '')'') = ''label''"
proof -
  from assms have "filter (\<lambda>c. c = dq) X = []"
    by (auto simp: filter_empty_conv)
  then have "searchQuoted 0 (''text='' @ [dq]) (dq # []) (X @ [dq, CHR '')'']) = None"
    by (intro searchQuoted_two_quotes) simp
  then have "replaceQuoted (''text='' @ [dq]) [dq] [] (''label:has-text('' @ quoted X @ '')'')
      = ''label:has-text('' @ quoted X @ '')''"
    by (simp add: replaceQuoted_def operand_simps)
  then show ?thesis
    using assms
    by (simp add: playwrightEstimate_def) (simp add: replaceQuoted_def operand_simps)
qed

section \<open>Match counts\<close>

lemma getMatchCount_returns: "\<exists>n. getMatchCount doc l = Inr n"
  by (simp add: getMatchCount_def try_catch_def and_then_def
           split: queryType.splits sum.splits)

text \<open>
  The stripping of the \<open>playwright\<close> branch leaves no double quote, leaves an expression
  without double quotes as it is, and removes only the first quoted \<open>text=\<close> operand,
  which ends at the first double quote inside it.
\<close>

lemma playwrightEstimate_no_quote: "dq \<notin> set (playwrightEstimate v)"
  by (simp add: playwrightEstimate_def)

lemma playwrightEstimate_plain:
  assumes "dq \<notin> set v"
  shows "playwrightEstimate v = v"
proof -
  from assms have f: "filter (\<lambda>c. c = dq) v = []"
    by (auto simp: filter_empty_conv)
  then have a: "searchQuoted 0 (''text='' @ [dq]) (dq # []) v = None"
    by (intro searchQuoted_two_quotes) simp
  from f have b: "searchQuoted 0 (''label:has-text('' @ [dq]) (dq # '')'') v = None"
    by (intro searchQuoted_two_quotes) simp
  from assms have "filter (\<lambda>c. c \<noteq> dq) v = v"
    by (auto simp: filter_id_conv)
  with a b show ?thesis
    by (simp add: playwrightEstimate_def replaceQuoted_def)
qed

lemma playwrightEstimate_first_only:
  "playwrightEstimate (''text='' @ quoted (''a'' @ [dq] @ ''text='' @ [dq] @ ''b'')) = ''text=b''"
  by code_simp

text \<open>
  Claim C5. \<open>getMatchCount\<close> never throws: it always returns a number. For a \<open>css\<close> or
  an \<open>xpath\<close> locator that number is the count of the query, or 0 when the query throws;
  for a \<open>playwright\<close> locator it is the count of the stripped expression run as a
  selector, or 1 when that count is zero or the selector throws. The stripped expression
  holds no double quote and is the expression itself when that holds none; of a text
  candidate whose operand holds a double quote it keeps what follows the first quoted
  run. For the two candidates of the dialect, with an operand without double quotes,
  the stripped expression is the structural remainder: empty for a text candidate and
  \<open>label\<close> for a label candidate, and that remainder is what \<open>getMatchCount\<close> runs.
\<close>

theorem getMatchCount_degrades:
  "getMatchCount doc locator = Inr
     (case queryType locator of
        Query_css \<Rightarrow>
          (case querySelectorAll doc (lvalue locator) of
             Inl e \<Rightarrow> 0 | Inr found \<Rightarrow> length found)
      | Query_xpath \<Rightarrow>
          (case evaluate doc (lvalue locator) of
             Inl e \<Rightarrow> 0 | Inr found \<Rightarrow> length found)
      | Query_playwright \<Rightarrow>
          (case querySelectorAll doc (playwrightEstimate (lvalue locator)) of
             Inl e \<Rightarrow> 1
           | Inr found \<Rightarrow> if length found = 0 then 1 else length found)) \<and>
   dq \<notin> set (playwrightEstimate v) \<and>
   (dq \<notin> set v \<longrightarrow> playwrightEstimate v = v) \<and>
   playwrightEstimate (''text='' @ quoted (''a'' @ [dq] @ ''text='' @ [dq] @ ''b'')) = ''text=b'' \<and>
   (dq \<notin> set X \<longrightarrow>
      playwrightEstimate (''text='' @ quoted X) = [] \<and>
      playwrightEstimate (''label:has-text('' @ quoted X @ '')'') = ''label'' \<and>
      getMatchCount doc (mkLocator Type_text (''text='' @ quoted X) r Query_playwright) =
        Inr (case querySelectorAll doc [] of
               Inl e \<Rightarrow> 1
             | Inr found \<Rightarrow> if length found = 0 then 1 else length found) \<and>
      getMatchCount doc
          (mkLocator Type_label (''label:has-text('' @ quoted X @ '')'') r Query_playwright) =
        Inr (case querySelectorAll doc ''label'' of
               Inl e \<Rightarrow> 1
             | Inr found \<Rightarrow> if length found = 0 then 1 else length found))"
proof -
  have g: "getMatchCount doc l = Inr
     (case queryType l of
        Query_css \<Rightarrow>
          (case querySelectorAll doc (lvalue l) of
             Inl e \<Rightarrow> 0 | Inr found \<Rightarrow> length found)
      | Query_xpath \<Rightarrow>
          (case evaluate doc (lvalue l) of
             Inl e \<Rightarrow> 0 | Inr found \<Rightarrow> length found)
      | Query_playwright \<Rightarrow>
          (case querySelectorAll doc (playwrightEstimate (lvalue l)) of
             Inl e \<Rightarrow> 1
           | Inr found \<Rightarrow> if length found = 0 then 1 else length found))" for l
    by (simp add: getMatchCount_def try_catch_def and_then_def
           split: queryType.splits sum.splits)
  have t: "getMatchCount doc (mkLocator Type_text (''text='' @ quoted X) r Query_playwright) =
        Inr (case querySelectorAll doc [] of
               Inl e \<Rightarrow> 1
             | Inr found \<Rightarrow> if length found = 0 then 1 else length found)"
    if "dq \<notin> set X"
    using playwrightEstimate_text [OF that]
    by (simp add: g mkLocator_def)
  have l: "getMatchCount doc
          (mkLocator Type_label (''label:has-text('' @ quoted X @ '')'') r Query_playwright) =
        Inr (case querySelectorAll doc ''label'' of
               Inl e \<Rightarrow> 1
             | Inr found \<Rightarrow> if length found = 0 then 1 else length found)"
    if "dq \<notin> set X"
    using playwrightEstimate_label [OF that]
    by (simp add: g mkLocator_def)
  from g [of locator] playwrightEstimate_no_quote [of v] playwrightEstimate_plain [of v]
    playwrightEstimate_first_only playwrightEstimate_text [of X]
    playwrightEstimate_label [of X] t l
  show ?thesis by blast
qed

theorem getMatchCount_degrades_witness:
  "dq \<notin> set ''Login'' \<and>
   playwrightEstimate (''text='' @ quoted ''Login'') = [] \<and>
   querySelectorAll loginPage [] = Inl SyntaxError \<and>
   getMatchCount loginPage
     (mkLocator Type_text (''text='' @ quoted ''Login'') ''Visible text content''
        Query_playwright) = Inr 1"
proof -
  have h: "dq \<notin> set ''Login''"
    by simp
  have q: "querySelectorAll loginPage [] = Inl SyntaxError"
    by (simp add: loginPage_def pageOf_def engineRejects_def)
  from getMatchCount_degrades [of loginPage _ _ "''Login''" "''Visible text content''"] h
  have "playwrightEstimate (''text='' @ quoted ''Login'') = [] \<and>
     getMatchCount loginPage
       (mkLocator Type_text (''text='' @ quoted ''Login'') ''Visible text content''
          Query_playwright) =
        Inr (case querySelectorAll loginPage [] of
               Inl e \<Rightarrow> 1
             | Inr found \<Rightarrow> if length found = 0 then 1 else length found)"
    by blast
  with h q show ?thesis by simp
qed

section \<open>Scores and tiers\<close>

lemma calculateScore_returns:
  "\<exists>s. calculateScore doc l el = Inr s \<and> 0 \<le> s \<and> s \<le> 100"
proof -
  obtain n where "getMatchCount doc l = Inr n"
    using getMatchCount_returns by blast
  then show ?thesis
    by (simp add: calculateScore_def and_then_def)
qed

text \<open>
  Claim C2. For every locator and element \<open>calculateScore\<close> returns an integer between
  0 and 100, and the ranked locator built from it carries that score and the tier that
  the thresholds assign to it: \<open>Excellent\<close> from 80, \<open>Good\<close> from 60, \<open>Fair\<close> from 40,
  \<open>Poor\<close> below.
\<close>

theorem score_range_and_tier:
  "\<exists>s. calculateScore doc l el = Inr s \<and> 0 \<le> s \<and> s \<le> 100 \<and>
       scoreLocator doc el l =
         Inr \<lparr>ltype = ltype l, lvalue = lvalue l, reason = reason l,
              queryType = queryType l, accessibleName = accessibleName l,
              score = s,
              stability = (if 80 \<le> s then Excellent else if 60 \<le> s then Good
                           else if 40 \<le> s then Fair else Poor)\<rparr>"
proof -
  obtain s where s: "calculateScore doc l el = Inr s" "0 \<le> s" "s \<le> 100"
    using calculateScore_returns by blast
  then show ?thesis
    by (simp add: scoreLocator_def and_then_def getStabilityLevel_def)
qed

section \<open>Ranking is a stable descending sort\<close>

lemma insertBy_score:
  "insertBy (\<lambda>a b. score b - score a) x ys = insort_key (\<lambda>r. - score r) x ys"
  by (induction ys) auto

lemma array_sort_score:
  "array_sort (\<lambda>a b. score b - score a) xs = sort_key (\<lambda>r. - score r) xs"
  by (induction xs) (auto simp: array_sort_def insertBy_score)

lemma scoreLocator_returns:
  "\<exists>r. scoreLocator doc el l = Inr r \<and> locator.truncate r = l \<and>
       0 \<le> score r \<and> score r \<le> 100 \<and> stability r = getStabilityLevel (score r)"
proof -
  obtain s where s: "calculateScore doc l el = Inr s" "0 \<le> s" "s \<le> 100"
    using calculateScore_returns by blast
  then show ?thesis
    by (simp add: scoreLocator_def and_then_def locator.truncate_def)
qed

lemma traverse_scoreLocator:
  "\<exists>scored. traverse (scoreLocator doc el) ls = Inr scored \<and>
       map locator.truncate scored = ls \<and>
       list_all (\<lambda>r. 0 \<le> score r \<and> score r \<le> 100 \<and>
                     stability r = getStabilityLevel (score r)) scored"
proof (induction ls)
  case Nil
  show ?case by simp
next
  case (Cons l ls)
  obtain r where r: "scoreLocator doc el l = Inr r" "locator.truncate r = l"
      "0 \<le> score r" "score r \<le> 100" "stability r = getStabilityLevel (score r)"
    using scoreLocator_returns by blast
  from Cons obtain scored where "traverse (scoreLocator doc el) ls = Inr scored"
     "map locator.truncate scored = ls"
     "list_all (\<lambda>r. 0 \<le> score r \<and> score r \<le> 100 \<and>
                   stability r = getStabilityLevel (score r)) scored"
    by blast
  with r show ?case by (simp add: and_then_def)
qed

text \<open>
  Claim C3. \<open>rankLocators\<close> always returns. With \<open>scored\<close> the candidates in generation
  order, each with its score, the ranked list is in descending order of score (of two
  candidates the one with the higher score comes first), and for every score the
  candidates with that score stand in the ranked list in their generation order.
\<close>

theorem rankLocators_stable_descending:
  "\<exists>scored ranked.
      traverse (scoreLocator doc el) generated = Inr scored \<and>
      map locator.truncate scored = generated \<and>
      rankLocators doc generated el = Inr ranked \<and>
      sorted_wrt (\<lambda>a b. score a \<ge> score b) ranked \<and>
      (\<forall>k. filter (\<lambda>r. score r = k) ranked = filter (\<lambda>r. score r = k) scored)"
proof -
  obtain scored where sc: "traverse (scoreLocator doc el) generated = Inr scored"
     "map locator.truncate scored = generated"
    using traverse_scoreLocator by blast
  let ?ranked = "sort_key (\<lambda>r. - score r) scored"
  have r: "rankLocators doc generated el = Inr ?ranked"
    using sc by (simp add: rankLocators_def and_then_def array_sort_score)
  have "sorted (map (\<lambda>r. - score r) ?ranked)"
    by (rule sorted_sort_key)
  then have d: "sorted_wrt (\<lambda>a b. score a \<ge> score b) ?ranked"
    by (simp add: sorted_map)
  have st: "filter (\<lambda>r. score r = k) ?ranked = filter (\<lambda>r. score r = k) scored" for k
    using sort_key_stable [of "\<lambda>r. - score r" "- k" scored] by simp
  from sc r d st show ?thesis by blast
qed

section \<open>Accessible names\<close>

text \<open>
  Claim C4, as the code has it. The claim says that an element carrying an \<open>aria-label\<close>
  attribute always gets that value as its name. The button with an empty \<open>aria-label\<close>
  and the text \<open>Click me\<close> is named \<open>Click me\<close>: the first step returns only a non-empty
  value.
\<close>

theorem empty_aria_label_counterexample:
  "\<not> (\<forall>doc el v. getAttribute el ''aria-label'' = Some v \<longrightarrow>
         getAccessibleName doc el = Inr (Some v))"
proof
  assume a: "\<forall>doc el v. getAttribute el ''aria-label'' = Some v \<longrightarrow>
         getAccessibleName doc el = Inr (Some v)"
  have "getAttribute emptyLabelButton ''aria-label'' = Some []"
    by (simp add: emptyLabelButton_def onPage_def getAttribute_def)
  with a have "getAccessibleName loginPage emptyLabelButton = Inr (Some [])"
    by blast
  moreover have "getAccessibleName loginPage emptyLabelButton = Inr (Some ''Click me'')"
    by (simp add: getAccessibleName_def nameFromAriaLabel_def
        nameFromLabelledBy_def nameFromOwnText_def returnIfTruthy_def truthy_def
        emptyLabelButton_def onPage_def getAttribute_def trim_def isWhiteSpace_def)
  ultimately show False by simp
qed

text \<open>
  Claim C4, amended. \<open>getAccessibleName\<close> follows the resolution order of the
  specification, each value counting only when it is non-empty; in particular an element
  with a non-empty \<open>aria-label\<close> is named by it, whatever its text.
\<close>

theorem accessible_name_order:
  "getAccessibleName doc el = resolveAccessibleName doc el \<and>
   (\<forall>v. getAttribute el ''aria-label'' = Some v \<and> v \<noteq> [] \<longrightarrow>
        getAccessibleName doc el = Inr (Some v))"
  by (auto simp: getAccessibleName_def resolveAccessibleName_def nameFromAriaLabel_def
        nameFromLabelledBy_def nameFromOwnText_def nameFromInput_def nameFromAlt_def
        returnIfTruthy_def truthy_def labelledByElement_def and_then_def
      split: option.splits sum.splits)

theorem accessible_name_order_witness:
  "getAttribute saveButton ''aria-label'' = Some ''Save'' \<and> ''Save'' \<noteq> [] \<and>
   textContent saveButton = ''Click me'' \<and>
   getAccessibleName loginPage saveButton = Inr (Some ''Save'')"
proof -
  have a: "getAttribute saveButton ''aria-label'' = Some ''Save''"
    by (simp add: saveButton_def onPage_def getAttribute_def)
  have t: "textContent saveButton = ''Click me''"
    by (simp add: saveButton_def onPage_def)
  have n: "''Save'' \<noteq> ([] :: string)"
    by simp
  have "getAccessibleName loginPage saveButton = Inr (Some ''Save'')"
    using accessible_name_order [of loginPage saveButton] a n by blast
  with a t n show ?thesis by blast
qed

section \<open>The generated candidates\<close>

lemmas part_defs =
  testIdLocators_def roleLocators_def ariaLabelLocators_def roleAttrLocators_def
  textLocators_def placeholderLocators_def altLocators_def titleLocators_def
  nameLocators_def idLocators_def cssLocators_def xpathLocator_def
  pushIfTruthy_def mkLocator_def

lemma part_types:
  "l \<in> set (testIdLocators el) \<Longrightarrow> ltype l = Type_test_id"
  "l \<in> set (roleLocators el name) \<Longrightarrow> ltype l = Type_role"
  "l \<in> set (ariaLabelLocators el) \<Longrightarrow> ltype l = Type_aria_label"
  "l \<in> set (roleAttrLocators el name) \<Longrightarrow> ltype l = Type_role_attr"
  "l \<in> set (textLocators el) \<Longrightarrow> ltype l = Type_text"
  "l \<in> set (placeholderLocators el) \<Longrightarrow> ltype l = Type_placeholder"
  "l \<in> set (altLocators el) \<Longrightarrow> ltype l = Type_alt"
  "l \<in> set (titleLocators el) \<Longrightarrow> ltype l = Type_title"
  "l \<in> set (nameLocators el) \<Longrightarrow> ltype l = Type_name"
  "l \<in> set (idLocators el) \<Longrightarrow> ltype l = Type_id"
  "l \<in> set (cssLocators doc el) \<Longrightarrow> ltype l = Type_css"
  "ltype (xpathLocator doc el) = Type_xpath"
  by (auto simp: part_defs Let_def split: option.splits if_splits)

lemma labelLocators_types:
  "labelLocators doc el = Inr labels \<Longrightarrow> l \<in> set labels \<Longrightarrow> ltype l = Type_label"
  by (auto simp: labelLocators_def and_then_def mkLocator_def
      split: if_splits sum.splits option.splits)

lemma generateLocators_parts:
  assumes "generateLocators doc el = Inr generated"
  obtains name labels where
    "getAccessibleName doc el = Inr name" "labelLocators doc el = Inr labels"
    "generated = testIdLocators el @ roleLocators el name @ ariaLabelLocators el @
        roleAttrLocators el name @ labels @ textLocators el @
        placeholderLocators el @ altLocators el @ titleLocators el @
        nameLocators el @ idLocators el @ cssLocators doc el @ [xpathLocator doc el]"
  using assms by (auto simp: generateLocators_def and_then_def split: sum.splits)

text \<open>Whenever the enumeration returns, its list ends with the XPath candidate.\<close>

lemma generateLocators_last_xpath:
  "generateLocators doc el = Inr generated \<Longrightarrow>
   generated \<noteq> [] \<and> last generated = xpathLocator doc el"
  by (erule generateLocators_parts) simp

text \<open>
  The enumeration returns for every element without an id, and for every element whose
  label lookup the selector engine accepts.
\<close>

lemma getAccessibleName_no_id:
  "element_id el = [] \<Longrightarrow> \<exists>name. getAccessibleName doc el = Inr name"
  by (auto simp: getAccessibleName_def nameFromAriaLabel_def
        nameFromLabelledBy_def nameFromOwnText_def nameFromInput_def nameFromAlt_def
        returnIfTruthy_def and_then_def
      split: option.splits sum.splits)

lemma getAccessibleName_label_found:
  "labelFor doc (element_id el) = Inr found \<Longrightarrow> \<exists>name. getAccessibleName doc el = Inr name"
  by (auto simp: getAccessibleName_def nameFromAriaLabel_def
        nameFromLabelledBy_def nameFromOwnText_def nameFromInput_def nameFromAlt_def
        returnIfTruthy_def and_then_def
      split: option.splits sum.splits)

lemma generateLocators_returns:
  assumes "element_id el = [] \<or> (\<exists>found. labelFor doc (element_id el) = Inr found)"
  shows "\<exists>generated. generateLocators doc el = Inr generated"
proof -
  from assms obtain name where n: "getAccessibleName doc el = Inr name"
    using getAccessibleName_no_id getAccessibleName_label_found by blast
  from assms have "\<exists>labels. labelLocators doc el = Inr labels"
    by (cases "element_id el = []")
       (auto simp: labelLocators_def and_then_def split: option.splits)
  then obtain labels where "labelLocators doc el = Inr labels" ..
  with n show ?thesis
    by (simp add: generateLocators_def and_then_def)
qed

text \<open>
  Claim C1, at an element the code fails on. The \<open>div\<close> whose id is \<open>a\<close>, a double quote
  and \<open>b\<close> makes step 5 look up a label with a selector that the engine refuses; the
  exception is not caught, so \<open>buildLocatorInfo\<close> throws and returns no locator list.
\<close>

theorem buildLocatorInfo_quote_id_throws:
  "buildLocatorInfo (pageOf quoteIdDiv engineRejects) quoteIdDiv = Inl SyntaxError"
  by (simp add: buildLocatorInfo_def generateLocators_def and_then_def
        getAccessibleName_def nameFromAriaLabel_def nameFromLabelledBy_def
        nameFromOwnText_def nameFromInput_def nameFromAlt_def returnIfTruthy_def truthy_def
        labelLocators_def labelFor_def querySelector_def pageOf_def engineRejects_def
        quoteIdDiv_def onPage_def element_id_def getAttribute_def quoted_def)

section \<open>The CSS selector of an element with an id\<close>

lemma generateCssSelector_id:
  "element_id el \<noteq> [] \<Longrightarrow> generateCssSelector doc el = ''#'' @ element_id el"
  by (simp add: generateCssSelector_def)

text \<open>
  Claim C7, at an element the code fails on. For the \<open>div\<close> with id \<open>a:b\<close>,
  \<open>generateCssSelector\<close> returns \<open>#a:b\<close> at once, where the ancestor walk would give
  \<open>div\<close>; step 11 of \<open>generateLocators\<close>, which checks the colon, pushes no id candidate
  for it.
\<close>

theorem colon_id_selector:
  "element_id colonIdDiv = ''a:b'' \<and>
   generateCssSelector (pageOf colonIdDiv engineRejects) colonIdDiv = ''#a:b'' \<and>
   join '' > '' (cssWalk (pageOf colonIdDiv engineRejects) (Some colonIdDiv) 0 []) = ''div'' \<and>
   idLocators colonIdDiv = []"
  by code_simp

section \<open>The text candidate\<close>

lemma filter_none:
  "(\<And>l. l \<in> set xs \<Longrightarrow> ltype l = t) \<Longrightarrow> t \<noteq> u \<Longrightarrow> filter (\<lambda>l. ltype l = u) xs = []"
  by (auto simp: filter_empty_conv)

lemma filter_all:
  "(\<And>l. l \<in> set xs \<Longrightarrow> ltype l = t) \<Longrightarrow> filter (\<lambda>l. ltype l = t) xs = xs"
  by (auto simp: filter_id_conv)

lemma generated_text:
  assumes "generateLocators doc el = Inr generated"
  shows "filter (\<lambda>l. ltype l = Type_text) generated = textLocators el"
proof -
  from assms obtain name labels where
    l: "labelLocators doc el = Inr labels" and
    g: "generated = testIdLocators el @ roleLocators el name @ ariaLabelLocators el @
        roleAttrLocators el name @ labels @ textLocators el @
        placeholderLocators el @ altLocators el @ titleLocators el @
        nameLocators el @ idLocators el @ cssLocators doc el @ [xpathLocator doc el]"
    by (rule generateLocators_parts)
  have "filter (\<lambda>l. ltype l = Type_text) labels = []"
    using labelLocators_types [OF l] by (intro filter_none [where t = Type_label]) auto
  then show ?thesis
    unfolding g
    by (simp add: part_types filter_none [where u = Type_text, OF part_types(1)]
        filter_none [where u = Type_text, OF part_types(2)]
        filter_none [where u = Type_text, OF part_types(3)]
        filter_none [where u = Type_text, OF part_types(4)]
        filter_all [OF part_types(5)]
        filter_none [where u = Type_text, OF part_types(6)]
        filter_none [where u = Type_text, OF part_types(7)]
        filter_none [where u = Type_text, OF part_types(8)]
        filter_none [where u = Type_text, OF part_types(9)]
        filter_none [where u = Type_text, OF part_types(10)]
        filter_none [where u = Type_text, OF part_types(11)])
qed

lemma collapseWhiteSpace_Nil: "collapseWhiteSpace s = [] \<longleftrightarrow> s = []"
  by (cases s) auto

lemma textLocators_collapsed:
  "textLocators el =
     (let t = collapseWhiteSpace (trim (textContent el))
      in if t \<noteq> [] \<and> length t < 100
         then [mkLocator Type_text (''text='' @ quoted t) ''Visible text content''
                 Query_playwright]
         else [])"
  by (auto simp: textLocators_def getStableText_def Let_def collapseWhiteSpace_Nil)

lemma hundred_collapsed:
  "collapseWhiteSpace (trim (textContent hundredLetters)) = replicate 100 CHR ''a''"
  by code_simp

text \<open>
  Claim C8, as the code has it. The claim admits a collapsed text of exactly 100
  characters. For the paragraph of one hundred letters the enumeration returns and holds
  no text candidate.
\<close>

theorem text_candidate_100_counterexample:
  "\<not> (\<forall>doc el generated. generateLocators doc el = Inr generated \<longrightarrow>
        ((\<exists>l\<in>set generated. ltype l = Type_text) \<longleftrightarrow>
         (collapseWhiteSpace (trim (textContent el)) \<noteq> [] \<and>
          length (collapseWhiteSpace (trim (textContent el))) \<le> 100)))"
proof
  assume a: "\<forall>doc el generated. generateLocators doc el = Inr generated \<longrightarrow>
        ((\<exists>l\<in>set generated. ltype l = Type_text) \<longleftrightarrow>
         (collapseWhiteSpace (trim (textContent el)) \<noteq> [] \<and>
          length (collapseWhiteSpace (trim (textContent el))) \<le> 100))"
  have "element_id hundredLetters = []"
    by (simp add: hundredLetters_def onPage_def element_id_def getAttribute_def)
  then obtain generated where
    g: "generateLocators (pageOf hundredLetters engineRejects) hundredLetters = Inr generated"
    using generateLocators_returns by blast
  have "filter (\<lambda>l. ltype l = Type_text) generated = []"
    using generated_text [OF g] textLocators_collapsed [of hundredLetters]
    by (simp add: hundred_collapsed)
  then have n: "\<not> (\<exists>l\<in>set generated. ltype l = Type_text)"
    by (simp add: filter_empty_conv)
  from a g n show False
    by (simp add: hundred_collapsed)
qed

text \<open>
  Claim C8, amended. Whenever the enumeration returns, it holds a text candidate exactly
  when the trimmed, white-space-collapsed text content is non-empty and shorter than 100
  characters; that candidate is the only one of its kind, its expression is \<open>text=\<close> and
  the collapsed text in double quotes, and its dialect is \<open>playwright\<close>.
\<close>

theorem text_candidate_below_100:
  assumes "generateLocators doc el = Inr generated"
  shows "filter (\<lambda>l. ltype l = Type_text) generated =
     (let t = collapseWhiteSpace (trim (textContent el))
      in if t \<noteq> [] \<and> length t < 100
         then [mkLocator Type_text (''text='' @ quoted t) ''Visible text content''
                 Query_playwright]
         else [])"
  using generated_text [OF assms] textLocators_collapsed by simp

theorem text_candidate_below_100_witness:
  "\<exists>generated. generateLocators loginPage loginButton = Inr generated \<and>
     filter (\<lambda>l. ltype l = Type_text) generated =
       [mkLocator Type_text (''text='' @ quoted ''Login'') ''Visible text content''
          Query_playwright]"
proof -
  have "element_id loginButton = []"
    by (simp add: loginButton_def onPage_def element_id_def getAttribute_def)
  then obtain generated where
    g: "generateLocators loginPage loginButton = Inr generated"
    using generateLocators_returns by blast
  have c: "collapseWhiteSpace (trim (textContent loginButton)) = ''Login''"
    by code_simp
  show ?thesis
    using g text_candidate_below_100 [OF g] by (simp add: c)
qed

section \<open>Role candidates\<close>

lemma roleLocators_shape:
  "l \<in> set (roleLocators el name) \<Longrightarrow>
   queryType l = Query_css \<and> (\<exists>role. role \<noteq> [] \<and> lvalue l = ''role='' @ quoted role) \<and>
   accessibleName l = name \<and> truthy name"
  by (auto simp: roleLocators_def pushIfTruthy_def Let_def split: option.splits if_splits)

lemma generated_role:
  assumes "generateLocators doc el = Inr generated" "l \<in> set generated" "ltype l = Type_role"
  shows "\<exists>name. getAccessibleName doc el = Inr name \<and> l \<in> set (roleLocators el name)"
proof -
  from assms(1) obtain name labels where
    n: "getAccessibleName doc el = Inr name" and
    lb: "labelLocators doc el = Inr labels" and
    g: "generated = testIdLocators el @ roleLocators el name @ ariaLabelLocators el @
        roleAttrLocators el name @ labels @ textLocators el @
        placeholderLocators el @ altLocators el @ titleLocators el @
        nameLocators el @ idLocators el @ cssLocators doc el @ [xpathLocator doc el]"
    by (rule generateLocators_parts)
  from assms(2,3) have "l \<in> set (roleLocators el name)"
    unfolding g
    by (auto simp: part_types(12) dest: part_types(1-11) labelLocators_types [OF lb])
  with n show ?thesis by blast
qed

text \<open>
  Claim C10. Every role candidate that the enumeration returns has the dialect \<open>css\<close> and
  the expression \<open>role=\<close> with a quoted role. In a document whose selector engine
  refuses such expressions, \<open>getMatchCount\<close> returns 0 for it, and its score is the
  clamped sum of the base 50, the type bonus 90, the penalty of 20 for no match, and the
  terms for dynamic parts, visibility and length: the bonus of 10 for a unique match is
  never part of it.
\<close>

theorem role_candidate_never_unique:
  assumes "generateLocators doc el = Inr generated"
      and "l \<in> set generated" and "ltype l = Type_role"
      and "rejectsRoleExpressions doc"
  shows "queryType l = Query_css \<and>
         (\<exists>role. lvalue l = ''role='' @ quoted role) \<and>
         getMatchCount doc l = Inr 0 \<and>
         calculateScore doc l el =
           Inr (max 0 (min 100
             (50 + 90 - 20
              + (if hasDynamicParts (lvalue l) then - 30 else 0)
              + (if isElementVisible el then 5 else 0)
              + (if length (lvalue l) < 30 then 5
                 else if length (lvalue l) > 150 then - 10 else 0))))"
proof -
  from assms(1-3) obtain name where "l \<in> set (roleLocators el name)"
    using generated_role by blast
  then obtain role where q: "queryType l = Query_css"
      and v: "lvalue l = ''role='' @ quoted role"
    using roleLocators_shape by blast
  from assms(4) v obtain e where "querySelectorAll doc (lvalue l) = Inl e"
    unfolding rejectsRoleExpressions_def by metis
  with q have m: "getMatchCount doc l = Inr 0"
    by (simp add: getMatchCount_def try_catch_def and_then_def)
  have "calculateScore doc l el = Inr (max 0 (min 100 (rawScore l el 0)))"
    using m by (simp add: calculateScore_def and_then_def)
  moreover have "rawScore l el 0 = 50 + 90 - 20
              + (if hasDynamicParts (lvalue l) then - 30 else 0)
              + (if isElementVisible el then 5 else 0)
              + (if length (lvalue l) < 30 then 5
                 else if length (lvalue l) > 150 then - 10 else 0)"
    using assms(3) by (simp add: rawScore_def typeBonuses_def Let_def)
  ultimately show ?thesis
    using q v m by auto
qed

lemma loginPage_rejects: "rejectsRoleExpressions loginPage"
  by (simp add: rejectsRoleExpressions_def loginPage_def pageOf_def engineRejects_def)

lemma login_generated: "generateLocators loginPage loginButton = Inr loginCandidates"
  by code_simp

theorem role_candidate_never_unique_witness:
  "generateLocators loginPage loginButton = Inr loginCandidates \<and>
   loginRoleCandidate \<in> set loginCandidates \<and>
   ltype loginRoleCandidate = Type_role \<and>
   rejectsRoleExpressions loginPage \<and>
   getMatchCount loginPage loginRoleCandidate = Inr 0 \<and>
   calculateScore loginPage loginRoleCandidate loginButton = Inr 100"
proof -
  have t: "ltype loginRoleCandidate = Type_role"
    by (simp add: loginRoleCandidate_def)
  have i: "loginRoleCandidate \<in> set loginCandidates"
    by (simp add: loginCandidates_def)
  have d: "\<not> hasDynamicParts (lvalue loginRoleCandidate)"
    by code_simp
  have v: "isElementVisible loginButton"
    by code_simp
  have n: "length (lvalue loginRoleCandidate) = 13"
    by code_simp
  from role_candidate_never_unique [OF login_generated i t loginPage_rejects]
  show ?thesis
    using d v n t i by (simp add: login_generated loginPage_rejects)
qed

section \<open>The login button scenario\<close>

text \<open>
  With a match count of 1 a role candidate and a test-id candidate both reach the
  ceiling: the base 50 and a type bonus of 85 or more exceed 100 before any other term.
\<close>

lemma saturated_score:
  assumes "getMatchCount doc l = Inr 1" "ltype l = Type_role \<or> ltype l = Type_test_id"
  shows "calculateScore doc l el = Inr 100"
  using assms
  by (auto simp: calculateScore_def and_then_def rawScore_def typeBonuses_def Let_def)

text \<open>
  Claim C6, at the scenario the code fails on. For the login button, alone in its
  document, the test-id candidate and the role candidate are both generated and both
  score 100, and the ranking keeps the generation order, so the test-id candidate stands
  before the role candidate. This holds where the engine refuses the role expression
  (\<open>loginPage\<close>) and where every query, that of the role expression too, finds exactly
  the button (\<open>lenientPage\<close>).
\<close>

theorem login_button_ranking:
  "(case buildLocatorInfo loginPage loginButton of
      Inl e \<Rightarrow> []
    | Inr info \<Rightarrow> map (\<lambda>r. (ltype r, score r)) (locators info)) =
     [(Type_test_id, 100), (Type_role, 100), (Type_aria_label, 100),
      (Type_text, 90), (Type_css, 85), (Type_xpath, 80)] \<and>
   (case buildLocatorInfo lenientPage loginButton of
      Inl e \<Rightarrow> []
    | Inr info \<Rightarrow> map (\<lambda>r. (ltype r, score r)) (locators info)) =
     [(Type_test_id, 100), (Type_role, 100), (Type_aria_label, 100),
      (Type_text, 90), (Type_css, 85), (Type_xpath, 80)]"
  by code_simp

section \<open>The framework converters\<close>

lemmas emit_defs =
  convertToPlaywright_def playwrightCase_def playwrightDefault_def
  convertToSelenium_def seleniumCase_def seleniumDefault_def seleniumCss_def mkLocator_def

text \<open>Every candidate that the enumeration returns has the expression of its kind.\<close>

lemma generated_expression:
  assumes "generateLocators doc el = Inr generated" "l \<in> set generated"
  shows "\<exists>X. lvalue l = expressionOf (ltype l) X"
proof -
  from assms(1) obtain name labels where
    lb: "labelLocators doc el = Inr labels" and
    g: "generated = testIdLocators el @ roleLocators el name @ ariaLabelLocators el @
        roleAttrLocators el name @ labels @ textLocators el @
        placeholderLocators el @ altLocators el @ titleLocators el @
        nameLocators el @ idLocators el @ cssLocators doc el @ [xpathLocator doc el]"
    by (rule generateLocators_parts)
  have "l \<in> set labels \<Longrightarrow> ?thesis"
    using lb
    by (auto simp: labelLocators_def and_then_def mkLocator_def expressionOf_def
          split: if_splits sum.splits option.splits)
  moreover have "l \<notin> set labels \<Longrightarrow> ?thesis"
    using assms(2) unfolding g
    by (auto simp: part_defs expressionOf_def Let_def split: option.splits if_splits)
  ultimately show ?thesis by blast
qed

lemma case_tables:
  "(playwrightCase t = None) = (t = Type_title)"
  "(seleniumCase t = None) = (t = Type_title \<or> t = Type_role_attr)"
  by (cases t; simp add: playwrightCase_def seleniumCase_def)+

text \<open>The title candidate and, under Selenium, the bare-role candidate take the default.\<close>

lemma unmapped_take_default:
  "convertToPlaywright titleCandidate = playwrightDefault (lvalue titleCandidate)"
  "convertToSelenium titleCandidate = seleniumDefault (lvalue titleCandidate)"
  "convertToSelenium roleAttrCandidate = seleniumDefault (lvalue roleAttrCandidate)"
  by (simp_all add: titleCandidate_def roleAttrCandidate_def convertToPlaywright_def
        convertToSelenium_def playwrightCase_def seleniumCase_def mkLocator_def)

text \<open>
  Claim C9, as the code has it. The claim says that each of the thirteen kinds has a
  \<open>case\<close> of its own in both converters. The \<open>switch\<close> of \<open>convertToPlaywright\<close> has none
  for a title candidate, which takes the \<open>default\<close> branch.
\<close>

theorem every_kind_template_counterexample:
  "\<not> (\<forall>t. playwrightCase t \<noteq> None \<and> seleniumCase t \<noteq> None)"
proof
  assume "\<forall>t. playwrightCase t \<noteq> None \<and> seleniumCase t \<noteq> None"
  then have "playwrightCase Type_title \<noteq> None" by blast
  then show False by (simp add: playwrightCase_def)
qed

text \<open>
  Claim C9, amended. \<open>convertToPlaywright\<close> has a \<open>case\<close> for every kind but title, and
  \<open>convertToSelenium\<close> for every kind but title and bare role; those kinds take the
  \<open>default\<close> branch, the generic call on the whole expression. \<open>convertToFramework\<close> with
  \<open>playwright\<close> or \<open>selenium\<close> is the converter of that name. For a candidate of kind \<open>t\<close>
  written as \<open>generateLocators\<close> writes it, with an operand \<open>X\<close> that is non-empty and
  holds no double quote (and a non-empty accessible name \<open>N\<close> on a role candidate), each
  converter returns the code listed for \<open>t\<close>, in which the operand is \<open>X\<close> as extracted
  from the expression. An id, CSS, XPath or title candidate, whose code takes no operand
  out of the expression by a pattern, needs no condition on \<open>X\<close>. The result is a
  function of the candidate and the framework.
\<close>

theorem framework_templates:
  assumes "t \<in> {Type_id, Type_css, Type_xpath, Type_title} \<or> (dq \<notin> set X \<and> X \<noteq> [])"
      and "t = Type_role \<longrightarrow> N \<noteq> []"
  shows
   "(playwrightCase t = None) = (t = Type_title) \<and>
    (seleniumCase t = None) = (t = Type_title \<or> t = Type_role_attr) \<and>
    convertToFramework (candidateOf t X N) ''playwright'' =
      convertToPlaywright (candidateOf t X N) \<and>
    convertToFramework (candidateOf t X N) ''selenium'' =
      convertToSelenium (candidateOf t X N) \<and>
    convertToPlaywright (candidateOf t X N) =
      (case t of
         Type_test_id \<Rightarrow> ''page.getByTestId('' @ squoted X @ '')''
       | Type_role \<Rightarrow> ''page.getByRole('' @ squoted X @ '', { name: '' @ squoted N @ '' })''
       | Type_aria_label \<Rightarrow> ''page.getByLabel('' @ squoted X @ '')''
       | Type_role_attr \<Rightarrow> ''page.getByRole('' @ squoted X @ '')''
       | Type_label \<Rightarrow> ''page.getByLabel('' @ squoted X @ '')''
       | Type_text \<Rightarrow> ''page.getByText('' @ squoted X @ '')''
       | Type_placeholder \<Rightarrow> ''page.getByPlaceholder('' @ squoted X @ '')''
       | Type_alt \<Rightarrow> ''page.getByAltText('' @ squoted X @ '')''
       | Type_title \<Rightarrow> playwrightDefault (''[title='' @ quoted X @ '']'')
       | Type_name \<Rightarrow>
           ''page.getByRole('' @ squoted ''textbox'' @ '', { name: '' @ squoted X @ '' })''
       | Type_id \<Rightarrow> ''page.locator('' @ squoted (''#'' @ X) @ '')''
       | Type_css \<Rightarrow> ''page.locator('' @ squoted X @ '')''
       | Type_xpath \<Rightarrow> ''page.locator('' @ squoted (''xpath='' @ X) @ '')'') \<and>
    convertToSelenium (candidateOf t X N) =
      (case t of
         Type_test_id \<Rightarrow> seleniumCss (''[data-testid='' @ quoted X @ '']'')
       | Type_role \<Rightarrow> seleniumCss (''[role='' @ quoted X @ '']'')
       | Type_aria_label \<Rightarrow> seleniumCss (''[aria-label='' @ quoted X @ '']'')
       | Type_role_attr \<Rightarrow> seleniumDefault (''[role='' @ quoted X @ '']'')
       | Type_label \<Rightarrow>
           ''driver.find_element(By.XPATH, '' @
             quoted (''//label[contains(text(), '' @ squoted X @ '')]/..//*[@name]'') @ '')''
       | Type_text \<Rightarrow>
           ''driver.find_element(By.XPATH, '' @
             quoted (''//*[contains(text(), '' @ squoted X @ '')]'') @ '')''
       | Type_placeholder \<Rightarrow> seleniumCss (''[placeholder='' @ quoted X @ '']'')
       | Type_alt \<Rightarrow> seleniumCss (''img[alt='' @ quoted X @ '']'')
       | Type_title \<Rightarrow> seleniumDefault (''[title='' @ quoted X @ '']'')
       | Type_name \<Rightarrow> ''driver.find_element(By.NAME, '' @ squoted X @ '')''
       | Type_id \<Rightarrow> ''driver.find_element(By.ID, '' @ squoted X @ '')''
       | Type_css \<Rightarrow> seleniumCss X
       | Type_xpath \<Rightarrow> ''driver.find_element(By.XPATH, '' @ squoted X @ '')'')"
proof -
  have f: "convertToFramework (candidateOf t X N) ''playwright'' =
             convertToPlaywright (candidateOf t X N)"
      "convertToFramework (candidateOf t X N) ''selenium'' =
             convertToSelenium (candidateOf t X N)"
    by (simp_all add: convertToFramework_def toLowerCase_def isCapital_def)
  have p: "convertToPlaywright (candidateOf t X N) =
      (case t of
         Type_test_id \<Rightarrow> ''page.getByTestId('' @ squoted X @ '')''
       | Type_role \<Rightarrow> ''page.getByRole('' @ squoted X @ '', { name: '' @ squoted N @ '' })''
       | Type_aria_label \<Rightarrow> ''page.getByLabel('' @ squoted X @ '')''
       | Type_role_attr \<Rightarrow> ''page.getByRole('' @ squoted X @ '')''
       | Type_label \<Rightarrow> ''page.getByLabel('' @ squoted X @ '')''
       | Type_text \<Rightarrow> ''page.getByText('' @ squoted X @ '')''
       | Type_placeholder \<Rightarrow> ''page.getByPlaceholder('' @ squoted X @ '')''
       | Type_alt \<Rightarrow> ''page.getByAltText('' @ squoted X @ '')''
       | Type_title \<Rightarrow> playwrightDefault (''[title='' @ quoted X @ '']'')
       | Type_name \<Rightarrow>
           ''page.getByRole('' @ squoted ''textbox'' @ '', { name: '' @ squoted X @ '' })''
       | Type_id \<Rightarrow> ''page.locator('' @ squoted (''#'' @ X) @ '')''
       | Type_css \<Rightarrow> ''page.locator('' @ squoted X @ '')''
       | Type_xpath \<Rightarrow> ''page.locator('' @ squoted (''xpath='' @ X) @ '')'')"
    using assms
    by (cases t; simp add: candidateOf_def expressionOf_def emit_defs operand_simps)
  have s: "convertToSelenium (candidateOf t X N) =
      (case t of
         Type_test_id \<Rightarrow> seleniumCss (''[data-testid='' @ quoted X @ '']'')
       | Type_role \<Rightarrow> seleniumCss (''[role='' @ quoted X @ '']'')
       | Type_aria_label \<Rightarrow> seleniumCss (''[aria-label='' @ quoted X @ '']'')
       | Type_role_attr \<Rightarrow> seleniumDefault (''[role='' @ quoted X @ '']'')
       | Type_label \<Rightarrow>
           ''driver.find_element(By.XPATH, '' @
             quoted (''//label[contains(text(), '' @ squoted X @ '')]/..//*[@name]'') @ '')''
       | Type_text \<Rightarrow>
           ''driver.find_element(By.XPATH, '' @
             quoted (''//*[contains(text(), '' @ squoted X @ '')]'') @ '')''
       | Type_placeholder \<Rightarrow> seleniumCss (''[placeholder='' @ quoted X @ '']'')
       | Type_alt \<Rightarrow> seleniumCss (''img[alt='' @ quoted X @ '']'')
       | Type_title \<Rightarrow> seleniumDefault (''[title='' @ quoted X @ '']'')
       | Type_name \<Rightarrow> ''driver.find_element(By.NAME, '' @ squoted X @ '')''
       | Type_id \<Rightarrow> ''driver.find_element(By.ID, '' @ squoted X @ '')''
       | Type_css \<Rightarrow> seleniumCss X
       | Type_xpath \<Rightarrow> ''driver.find_element(By.XPATH, '' @ squoted X @ '')'')"
    using assms
    by (cases t; simp add: candidateOf_def expressionOf_def emit_defs operand_simps)
  from case_tables [of t] f p s show ?thesis
    by (simp only: simp_thms)
qed


theorem framework_templates_witness:
  "dq \<notin> set ''login-btn'' \<and> ''login-btn'' \<noteq> [] \<and> ''Sign in'' \<noteq> [] \<and>
   convertToPlaywright (candidateOf Type_test_id ''login-btn'' ''Sign in'') =
     ''page.getByTestId('' @ squoted ''login-btn'' @ '')'' \<and>
   convertToPlaywright (candidateOf Type_role ''button'' ''Sign in'') =
     ''page.getByRole('' @ squoted ''button'' @ '', { name: '' @ squoted ''Sign in'' @ '' })'' \<and>
   convertToSelenium (candidateOf Type_title ''login-btn'' ''Sign in'') =
     seleniumDefault (''[title='' @ quoted ''login-btn'' @ '']'') \<and>
   convertToSelenium (candidateOf Type_xpath (''//*[@id='' @ quoted ''x'' @ '']'') []) =
     ''driver.find_element(By.XPATH, '' @ squoted (''//*[@id='' @ quoted ''x'' @ '']'') @ '')''"
proof -
  have h: "dq \<notin> set ''login-btn''" "''login-btn'' \<noteq> []" "''Sign in'' \<noteq> []"
      "dq \<notin> set ''button''" "''button'' \<noteq> []"
    by simp_all
  have a: "Type_test_id \<in> {Type_id, Type_css, Type_xpath, Type_title} \<or>
           (dq \<notin> set ''login-btn'' \<and> ''login-btn'' \<noteq> [])"
    by simp
  have b: "Type_role \<in> {Type_id, Type_css, Type_xpath, Type_title} \<or>
           (dq \<notin> set ''button'' \<and> ''button'' \<noteq> [])"
    by simp
  have c: "Type_title \<in> {Type_id, Type_css, Type_xpath, Type_title} \<or>
           (dq \<notin> set ''login-btn'' \<and> ''login-btn'' \<noteq> [])"
    by simp
  have d: "Type_xpath \<in> {Type_id, Type_css, Type_xpath, Type_title} \<or>
           (dq \<notin> set (''//*[@id='' @ quoted ''x'' @ '']'') \<and> ''//*[@id='' @ quoted ''x'' @ '']'' \<noteq> [])"
    by simp
  have n: "Type_role = Type_role \<longrightarrow> ''Sign in'' \<noteq> []"
    by simp
  from framework_templates [OF a, of "''Sign in''"]
       framework_templates [OF b n]
       framework_templates [OF c, of "''Sign in''"]
       framework_templates [OF d, of "[]"]
  show ?thesis using h by (simp del: set_simps)
qed

end
